theory Spec2Isabelle
  imports Complex_Main "HOL-Library.AList" "HOL-Library.Log_Nat"
begin

section \<open>Numbers, errors and dictionaries\<close>

text \<open>
  The program (\<^verbatim>\<open>optimize.py\<close>) computes with Python numbers read from JSON. They are
  modelled as exact reals, with \<^verbatim>\<open>*\<close>, \<^verbatim>\<open>+\<close> and \<^verbatim>\<open>/\<close> the field operations, wherever a
  property does not turn on rounding; the section on double-precision arithmetic models
  the rounding of each operation for the properties that do. What Python raises is a value of
  \<open>py_error\<close>; a function that can raise returns \<open>py_error + 'a\<close>, \<open>Inl\<close> the exception.
\<close>

datatype py_error = TypeError | ZeroDivisionError | KeyError | PulpError

text \<open>
  A Python \<^verbatim>\<open>dict\<close> with string keys: an association list in insertion order.
  \<^verbatim>\<open>d[k] = v\<close> overwrites the value of a key that is present (keeping its place) and
  appends a new key; \<^verbatim>\<open>d[k]\<close> raises \<^verbatim>\<open>KeyError\<close> for a missing key.
\<close>

type_synonym 'v pydict = "(string \<times> 'v) list"

definition setitem :: "'v pydict \<Rightarrow> string \<Rightarrow> 'v \<Rightarrow> 'v pydict" where
  "setitem d k v = AList.update k v d"

definition getitem :: "'v pydict \<Rightarrow> string \<Rightarrow> py_error + 'v" where
  "getitem d k = (case map_of d k of None \<Rightarrow> Inl KeyError | Some v \<Rightarrow> Inr v)"

section \<open>NutritionVector\<close>

record NutritionVector =
  fat :: real
  carbs :: real
  protein :: real

definition calories :: "NutritionVector \<Rightarrow> real" where
  "calories v = 9 * fat v + 4 * carbs v + 4 * protein v"

definition scale :: "NutritionVector \<Rightarrow> real \<Rightarrow> NutritionVector" where
  "scale v factor = \<lparr>fat = fat v * factor, carbs = carbs v * factor, protein = protein v * factor\<rparr>"

text \<open>
  \<^verbatim>\<open>NutritionVector(**nutrients)\<close>: the keyword call succeeds when the dictionary has
  exactly the keys \<^verbatim>\<open>fat\<close>, \<^verbatim>\<open>carbs\<close> and \<^verbatim>\<open>protein\<close>; a missing or an unexpected
  keyword is a \<^verbatim>\<open>TypeError\<close>.
\<close>

definition NutritionVector_kwargs :: "real pydict \<Rightarrow> py_error + NutritionVector" where
  "NutritionVector_kwargs nutrients =
     (case (map_of nutrients ''fat'', map_of nutrients ''carbs'', map_of nutrients ''protein'') of
        (Some f, Some c, Some p) \<Rightarrow>
          if list_all (\<lambda>k. k \<in> {''fat'', ''carbs'', ''protein''}) (map fst nutrients)
          then Inr \<lparr>fat = f, carbs = c, protein = p\<rparr>
          else Inl TypeError
      | _ \<Rightarrow> Inl TypeError)"

section \<open>Product\<close>

record Product =
  name :: string
  serving_size :: real
  servings_available :: real
  nutrition :: NutritionVector

text \<open>
  \<^verbatim>\<open>Product.__init__\<close>. Python evaluates \<^verbatim>\<open>NutritionVector(**nutrients)\<close> first, then
  the argument \<^verbatim>\<open>1/serving_size\<close>, which raises \<^verbatim>\<open>ZeroDivisionError\<close> for a zero
  \<^verbatim>\<open>serving_size\<close> and nothing else: there is no other check of the arguments.
\<close>

definition Product_init :: "string \<Rightarrow> real \<Rightarrow> real \<Rightarrow> real pydict \<Rightarrow> py_error + Product" where
  "Product_init nm ssize savail nutrients =
     (case NutritionVector_kwargs nutrients of
        Inl e \<Rightarrow> Inl e
      | Inr raw \<Rightarrow>
          if ssize = 0 then Inl ZeroDivisionError
          else Inr \<lparr>name = nm, serving_size = ssize, servings_available = savail,
                    nutrition = scale raw (1 / ssize)\<rparr>)"

section \<open>The linear program handed to the solver\<close>

text \<open>
  Modelled from the spec: the solver library (pulp) is an external collaborator and is not
  under \<^verbatim>\<open>src/\<close>. Its objects are modelled as the data that sections 3 and 4.3 of the
  spec describe: a variable with its bounds and category, an affine expression as the
  list of its terms (coefficient and variable; \<^verbatim>\<open>lpSum\<close> of a list of terms is that
  list), a constraint as an expression compared with a constant, and the problem as the
  list of labelled constraints in the order of the \<^verbatim>\<open>prob += ...\<close> statements. No
  objective is ever added. What the library does with names internally (how it spells
  them, whether it accepts a label twice) is not modelled.
\<close>

datatype LpCategory = LpContinuous | LpInteger | LpBinary

record LpVariable =
  var_name :: string
  lowBound :: "real option"
  upBound :: "real option"
  cat :: LpCategory

type_synonym LpAffineExpression = "(real \<times> LpVariable) list"

datatype LpConstraintSense = LpConstraintLE | LpConstraintEQ | LpConstraintGE

record LpConstraint =
  expr :: LpAffineExpression
  sense :: LpConstraintSense
  rhs :: real

text \<open>
  The labels of the source: \<^verbatim>\<open>'Fat target'\<close>, \<^verbatim>\<open>'Carbs target'\<close>, \<^verbatim>\<open>'Protein target'\<close>,
  \<^verbatim>\<open>f'{max_mixture} gram upper bound for {p.name}'\<close> and
  \<^verbatim>\<open>f'{min_mixture} gram lower bound for {p.name}'\<close>, kept structured.
\<close>

datatype ConstraintLabel =
    Fat_target
  | Carbs_target
  | Protein_target
  | Gram_upper_bound_for real string
  | Gram_lower_bound_for real string

datatype LpSense = LpMinimize | LpMaximize

record LpProblem =
  prob_name :: string
  prob_sense :: LpSense
  constraints :: "(ConstraintLabel \<times> LpConstraint) list"

text \<open>
  Modelled from the spec: \<^verbatim>\<open>LpVariable.dicts(prefix, indices, lowBound)\<close> is a call into
  the library. It returns a dictionary keyed by the indices, in index order, each entry a
  continuous variable named \<^verbatim>\<open>prefix_index\<close> with the given lower bound and no upper
  bound (section 4.3 of the spec). A dictionary holds a key once, so an index that occurs
  twice keeps one entry.
\<close>

definition LpVariable_dicts :: "string \<Rightarrow> string list \<Rightarrow> real option \<Rightarrow> LpVariable pydict" where
  "LpVariable_dicts prefix indices low =
     foldl (\<lambda>d i. setitem d i
              \<lparr>var_name = prefix @ ''_'' @ i, lowBound = low, upBound = None, cat = LpContinuous\<rparr>)
       [] indices"

text \<open>A list comprehension whose body can raise: the first exception ends it.\<close>

fun map_err :: "('a \<Rightarrow> 'e + 'b) \<Rightarrow> 'a list \<Rightarrow> 'e + 'b list" where
  "map_err f [] = Inr []"
| "map_err f (x # xs) =
     (case f x of
        Inl e \<Rightarrow> Inl e
      | Inr y \<Rightarrow> (case map_err f xs of Inl e \<Rightarrow> Inl e | Inr ys \<Rightarrow> Inr (y # ys)))"

text \<open>A loop over a list that updates a state and can raise: the first exception ends it.\<close>

fun fold_err :: "('s \<Rightarrow> 'a \<Rightarrow> 'e + 's) \<Rightarrow> 's \<Rightarrow> 'a list \<Rightarrow> 'e + 's" where
  "fold_err f s [] = Inr s"
| "fold_err f s (x # xs) = (case f s x of Inl e \<Rightarrow> Inl e | Inr s' \<Rightarrow> fold_err f s' xs)"

text \<open>
  Modelled from the spec: \<^verbatim>\<open>prob += constraint, label\<close> is a call into the library. The
  problem keeps its constraints under their names, where the library spells a name with
  each of the characters \<^verbatim>\<open>- + [ ] > /\<close> and the space replaced by an underscore, and it
  refuses a name it already holds with \<^verbatim>\<open>PulpError\<close>. This is the reference behaviour for
  product names that are not unique, which section 3 of the spec leaves undefined. The
  numbers in the labels are compared as numbers.
\<close>

definition pulp_rename :: "string \<Rightarrow> string" where
  "pulp_rename s = map (\<lambda>c. if c \<in> set ''-+[] >/'' then CHR ''_'' else c) s"

fun label_key :: "ConstraintLabel \<Rightarrow> ConstraintLabel" where
  "label_key (Gram_upper_bound_for x n) = Gram_upper_bound_for x (pulp_rename n)"
| "label_key (Gram_lower_bound_for x n) = Gram_lower_bound_for x (pulp_rename n)"
| "label_key l = l"

definition add_constraint ::
    "LpProblem \<Rightarrow> ConstraintLabel \<times> LpConstraint \<Rightarrow> py_error + LpProblem" where
  "add_constraint pr lc =
     (if label_key (fst lc) \<in> set (map (\<lambda>x. label_key (fst x)) (constraints pr))
      then Inl PulpError
      else Inr (pr\<lparr>constraints := constraints pr @ [lc]\<rparr>))"

section \<open>The model builder: lines 36 to 62 of optimize\<close>

record CoefTables =
  fat_coefs :: "real pydict"
  carb_coefs :: "real pydict"
  protein_coefs :: "real pydict"
  grams_available :: "real pydict"

text \<open>One pass of the first loop (lines 41 to 45): four dictionary stores under \<^verbatim>\<open>p.name\<close>.\<close>

definition coef_step :: "CoefTables \<Rightarrow> Product \<Rightarrow> CoefTables" where
  "coef_step t p =
     \<lparr>fat_coefs = setitem (fat_coefs t) (name p) (fat (nutrition p)),
      carb_coefs = setitem (carb_coefs t) (name p) (carbs (nutrition p)),
      protein_coefs = setitem (protein_coefs t) (name p) (protein (nutrition p)),
      grams_available = setitem (grams_available t) (name p)
                          (serving_size p * servings_available p)\<rparr>"

definition coef_tables :: "Product list \<Rightarrow> CoefTables" where
  "coef_tables products =
     foldl coef_step
       \<lparr>fat_coefs = [], carb_coefs = [], protein_coefs = [], grams_available = []\<rparr> products"

text \<open>\<^verbatim>\<open>coefs[p.name] * mixture_vars[p.name]\<close>: one term of a weighted sum.\<close>

definition weighted_term ::
    "real pydict \<Rightarrow> LpVariable pydict \<Rightarrow> Product \<Rightarrow> py_error + (real \<times> LpVariable)" where
  "weighted_term coefs mvars p =
     (case getitem coefs (name p) of
        Inl e \<Rightarrow> Inl e
      | Inr c \<Rightarrow> (case getitem mvars (name p) of Inl e \<Rightarrow> Inl e | Inr v \<Rightarrow> Inr (c, v)))"

text \<open>One pass of the second loop (lines 58 to 62): the two bound constraints of a product.\<close>

definition bound_constraints ::
    "real pydict \<Rightarrow> LpVariable pydict \<Rightarrow> Product
       \<Rightarrow> py_error + (ConstraintLabel \<times> LpConstraint) list" where
  "bound_constraints avail mvars p =
     (case getitem avail (name p) of
        Inl e \<Rightarrow> Inl e
      | Inr max_mixture \<Rightarrow>
          (let min_mixture = 0 in
           case getitem mvars (name p) of
             Inl e \<Rightarrow> Inl e
           | Inr v \<Rightarrow>
               Inr [(Gram_upper_bound_for max_mixture (name p),
                      \<lparr>expr = [(1, v)], sense = LpConstraintLE, rhs = max_mixture\<rparr>),
                    (Gram_lower_bound_for min_mixture (name p),
                      \<lparr>expr = [(1, v)], sense = LpConstraintGE, rhs = min_mixture\<rparr>)]))"

text \<open>The local variables of \<^verbatim>\<open>optimize\<close> that the rest of the function uses.\<close>

record Model =
  mixture_vars :: "LpVariable pydict"
  fat_sum :: LpAffineExpression
  carb_sum :: LpAffineExpression
  protein_sum :: LpAffineExpression
  prob :: LpProblem

text \<open>
  One pass of the second loop with its two \<^verbatim>\<open>prob += ...\<close> statements, the upper bound
  first.
\<close>

definition add_bounds ::
    "real pydict \<Rightarrow> LpVariable pydict \<Rightarrow> LpProblem \<Rightarrow> Product \<Rightarrow> py_error + LpProblem" where
  "add_bounds avail mvars pr p =
     (case bound_constraints avail mvars p of
        Inl e \<Rightarrow> Inl e
      | Inr bs \<Rightarrow> fold_err add_constraint pr bs)"

definition build_model :: "Product list \<Rightarrow> NutritionVector \<Rightarrow> py_error + Model" where
  "build_model products target_macros =
     (let t = coef_tables products;
          mvars = LpVariable_dicts ''Mixture'' (map name products) (Some 0)
      in case map_err (weighted_term (fat_coefs t) mvars) products of
           Inl e \<Rightarrow> Inl e
         | Inr fs \<Rightarrow>
        (case map_err (weighted_term (carb_coefs t) mvars) products of
           Inl e \<Rightarrow> Inl e
         | Inr cs \<Rightarrow>
        (case map_err (weighted_term (protein_coefs t) mvars) products of
           Inl e \<Rightarrow> Inl e
         | Inr ps \<Rightarrow>
        (case fold_err add_constraint
                \<lparr>prob_name = ''Macro Blending'', prob_sense = LpMaximize, constraints = []\<rparr>
                [(Fat_target,
                    \<lparr>expr = fs, sense = LpConstraintEQ, rhs = fat target_macros\<rparr>),
                 (Carbs_target,
                    \<lparr>expr = cs, sense = LpConstraintEQ, rhs = carbs target_macros\<rparr>),
                 (Protein_target,
                    \<lparr>expr = ps, sense = LpConstraintEQ, rhs = protein target_macros\<rparr>)] of
           Inl e \<Rightarrow> Inl e
         | Inr pr \<Rightarrow>
        (case fold_err (add_bounds (grams_available t) mvars) pr products of
           Inl e \<Rightarrow> Inl e
         | Inr pr' \<Rightarrow>
             Inr \<lparr>mixture_vars = mvars, fat_sum = fs, carb_sum = cs, protein_sum = ps,
                  prob = pr'\<rparr>)))))"

section \<open>Values of variables and satisfaction\<close>

text \<open>
  Modelled from the spec: after a solve every variable carries \<^verbatim>\<open>varValue\<close>, a number
  or \<^verbatim>\<open>None\<close> (section 4.4 of the spec: the values may be undefined when the problem is
  not solved); the model keeps them as a function from variable names. \<^verbatim>\<open>pulp.value\<close>
  of an expression is the sum over its terms of coefficient times value (section 3: the
  achieved total), and \<^verbatim>\<open>None\<close> as soon as one of its variables has no value.
\<close>

fun pulp_value :: "(string \<Rightarrow> real option) \<Rightarrow> LpAffineExpression \<Rightarrow> real option" where
  "pulp_value val [] = Some 0"
| "pulp_value val ((c, v) # e) =
     (case val (var_name v) of
        None \<Rightarrow> None
      | Some x \<Rightarrow> (case pulp_value val e of None \<Rightarrow> None | Some s \<Rightarrow> Some (x * c + s)))"

definition in_domain :: "(string \<Rightarrow> real option) \<Rightarrow> LpVariable \<Rightarrow> bool" where
  "in_domain val v =
     (case val (var_name v) of
        None \<Rightarrow> False
      | Some x \<Rightarrow>
          (case lowBound v of None \<Rightarrow> True | Some l \<Rightarrow> l \<le> x)
          \<and> (case upBound v of None \<Rightarrow> True | Some u \<Rightarrow> x \<le> u))"

definition constraint_holds :: "(string \<Rightarrow> real option) \<Rightarrow> LpConstraint \<Rightarrow> bool" where
  "constraint_holds val c =
     (case pulp_value val (expr c) of
        None \<Rightarrow> False
      | Some x \<Rightarrow>
          (case sense c of
             LpConstraintLE \<Rightarrow> x \<le> rhs c
           | LpConstraintEQ \<Rightarrow> x = rhs c
           | LpConstraintGE \<Rightarrow> rhs c \<le> x))"

text \<open>
  An assignment satisfies a problem when every constraint holds and every variable of a
  constraint has a value inside its own bounds.
\<close>

definition satisfies :: "LpProblem \<Rightarrow> (string \<Rightarrow> real option) \<Rightarrow> bool" where
  "satisfies pr val =
     list_all (\<lambda>(l, c). constraint_holds val c \<and> list_all (\<lambda>(a, v). in_domain val v) (expr c))
       (constraints pr)"

section \<open>The solve call and the interpretation of its result: lines 64 to 97\<close>

datatype LpStatus =
    LpStatusNotSolved
  | LpStatusOptimal
  | LpStatusInfeasible
  | LpStatusUnbounded
  | LpStatusUndefined

text \<open>
  What \<^verbatim>\<open>prob.solve()\<close> leaves behind: the status of the problem and the value of every
  variable. The solver itself is a parameter of \<open>optimize\<close>.
\<close>

record SolverResult =
  status :: LpStatus
  varValue :: "string \<Rightarrow> real option"

record Record =
  Product_col :: string
  Grams :: real
  Servings :: real
  Fat_g :: real
  Carbs_g :: real
  Protein_g :: real
  Calories :: real

text \<open>Line 69: \<^verbatim>\<open>mixture_vars[p.name].varValue\<close>, a number or \<^verbatim>\<open>None\<close>.\<close>

definition read_varValue ::
    "LpVariable pydict \<Rightarrow> (string \<Rightarrow> real option) \<Rightarrow> Product \<Rightarrow> py_error + real option" where
  "read_varValue mvars val p =
     (case getitem mvars (name p) of Inl e \<Rightarrow> Inl e | Inr v \<Rightarrow> Inr (val (var_name v)))"

text \<open>
  Lines 69 to 79, one pass of the loop. \<^verbatim>\<open>grams / p.serving_size\<close> raises
  \<^verbatim>\<open>TypeError\<close> when the value is \<^verbatim>\<open>None\<close> and \<^verbatim>\<open>ZeroDivisionError\<close> when the serving
  size is zero.
\<close>

definition make_record ::
    "LpVariable pydict \<Rightarrow> (string \<Rightarrow> real option) \<Rightarrow> Product \<Rightarrow> py_error + Record" where
  "make_record mvars val p =
     (case read_varValue mvars val p of
        Inl e \<Rightarrow> Inl e
      | Inr None \<Rightarrow> Inl TypeError
      | Inr (Some grams) \<Rightarrow>
          if serving_size p = 0 then Inl ZeroDivisionError
          else Inr \<lparr>Product_col = name p, Grams = grams, Servings = grams / serving_size p,
                    Fat_g = fat (scale (nutrition p) grams),
                    Carbs_g = carbs (scale (nutrition p) grams),
                    Protein_g = protein (scale (nutrition p) grams),
                    Calories = calories (scale (nutrition p) grams)\<rparr>)"

text \<open>
  Modelled from the spec: \<^verbatim>\<open>.round(2)\<close> is a call into the data-frame library; it rounds
  every numeric column to two decimals (sections 4.5 and 6 of the spec). The model rounds
  the value times 100 to an integer, a tie going to the even neighbour, and divides by
  100; no property below depends on how a tie is broken.
\<close>

definition rint :: "real \<Rightarrow> int" where
  "rint x =
     (let n = \<lfloor>x\<rfloor>; d = x - of_int n
      in if d < 1 / 2 then n else if 1 / 2 < d then n + 1 else if even n then n else n + 1)"

definition round2 :: "real \<Rightarrow> real" where
  "round2 x = of_int (rint (x * 100)) / 100"

definition round_record :: "Record \<Rightarrow> Record" where
  "round_record r =
     \<lparr>Product_col = Product_col r, Grams = round2 (Grams r), Servings = round2 (Servings r),
      Fat_g = round2 (Fat_g r), Carbs_g = round2 (Carbs_g r),
      Protein_g = round2 (Protein_g r), Calories = round2 (Calories r)\<rparr>"

text \<open>
  Line 89: \<^verbatim>\<open>NutritionVector(*map(pulp.value, [fat_sum, carb_sum, protein_sum]))\<close>. A sum
  without a value makes \<^verbatim>\<open>calories\<close> raise \<^verbatim>\<open>TypeError\<close> at line 94.
\<close>

definition summary_nutrition ::
    "Model \<Rightarrow> (string \<Rightarrow> real option) \<Rightarrow> py_error + NutritionVector" where
  "summary_nutrition m val =
     (case (pulp_value val (fat_sum m), pulp_value val (carb_sum m),
            pulp_value val (protein_sum m)) of
        (Some f, Some c, Some p) \<Rightarrow> Inr \<lparr>fat = f, carbs = c, protein = p\<rparr>
      | _ \<Rightarrow> Inl TypeError)"

record SummaryRow =
  Macronutrient :: string
  Grams_achieved :: real
  Targeted :: real

definition summary_rows :: "NutritionVector \<Rightarrow> NutritionVector \<Rightarrow> SummaryRow list" where
  "summary_rows s target_macros =
     map (\<lambda>(k, g, t). \<lparr>Macronutrient = k, Grams_achieved = round2 g, Targeted = round2 t\<rparr>)
       [(''Fat'', fat s, fat target_macros),
        (''Carbs'', carbs s, carbs target_macros),
        (''Protein'', protein s, protein target_macros),
        (''Total calories'', calories s, calories target_macros)]"

text \<open>
  What a completed run prints: the status line, the per-product table
  (\<^verbatim>\<open>df_filtered\<close>) and the summary table (\<^verbatim>\<open>df_summary\<close>).
\<close>

record Report =
  status_line :: LpStatus
  df_filtered :: "Record list"
  df_summary :: "SummaryRow list"

definition interpret_result ::
    "Product list \<Rightarrow> NutritionVector \<Rightarrow> Model \<Rightarrow> SolverResult \<Rightarrow> py_error + Report" where
  "interpret_result products target_macros m res =
     (case map_err (make_record (mixture_vars m) (varValue res)) products of
        Inl e \<Rightarrow> Inl e
      | Inr records \<Rightarrow>
          (case summary_nutrition m (varValue res) of
             Inl e \<Rightarrow> Inl e
           | Inr s \<Rightarrow>
               Inr \<lparr>status_line = status res,
                    df_filtered = map round_record (filter (\<lambda>x. 0 < Grams x) records),
                    df_summary = summary_rows s target_macros\<rparr>))"

definition optimize ::
    "(LpProblem \<Rightarrow> SolverResult) \<Rightarrow> Product list \<Rightarrow> NutritionVector \<Rightarrow> py_error + Report" where
  "optimize solve products target_macros =
     (case build_model products target_macros of
        Inl e \<Rightarrow> Inl e
      | Inr m \<Rightarrow> interpret_result products target_macros m (solve (prob m)))"

section \<open>Double-precision arithmetic\<close>

text \<open>
  A Python \<^verbatim>\<open>float\<close> is an IEEE double: 53 significant bits, and the result of
  \<^verbatim>\<open>*\<close>, \<^verbatim>\<open>+\<close> or \<^verbatim>\<open>/\<close> is the exact result rounded to the nearest double, a tie going to
  the even neighbour. \<open>binade t\<close> is the exponent \<open>e\<close> with \<open>2\<^sup>e \<le> \<bar>t\<bar> < 2\<^sup>e\<^sup>+\<^sup>1\<close>, and
  doubles in this binade are the multiples of \<open>2\<^sup>e\<^sup>-\<^sup>5\<^sup>2\<close>. The model follows results that are
  zero or in the range of the normal doubles; \<open>None\<close> stands for a result that is
  subnormal or beyond the largest double, where the model says nothing.
\<close>

definition binade :: "real \<Rightarrow> int" where
  "binade t =
     (if 1 \<le> \<bar>t\<bar> then int (floorlog 2 (nat \<lfloor>\<bar>t\<bar>\<rfloor>)) - 1
      else - int (floorlog 2 (nat (\<lceil>1 / \<bar>t\<bar>\<rceil> - 1))))"

definition double_round :: "real \<Rightarrow> real" where
  "double_round t =
     (if t = 0 then 0
      else of_int (rint (t / 2 powi (binade t - 52))) * 2 powi (binade t - 52))"

definition in_range :: "real \<Rightarrow> bool" where
  "in_range t \<longleftrightarrow> t = 0 \<or> (2 powi (- 1022) \<le> \<bar>t\<bar> \<and> \<bar>t\<bar> < 2 powi 1024 - 2 powi 970)"

definition fl :: "real \<Rightarrow> real option" where
  "fl t = (if in_range t then Some (double_round t) else None)"

text \<open>\<^verbatim>\<open>NutritionVector.scale\<close> in double arithmetic: one multiplication per field.\<close>

definition scale_fp :: "NutritionVector \<Rightarrow> real \<Rightarrow> NutritionVector option" where
  "scale_fp v factor =
     (case (fl (fat v * factor), fl (carbs v * factor), fl (protein v * factor)) of
        (Some f, Some c, Some p) \<Rightarrow> Some \<lparr>fat = f, carbs = c, protein = p\<rparr>
      | _ \<Rightarrow> None)"

text \<open>
  \<^verbatim>\<open>NutritionVector.calories\<close> in double arithmetic: three multiplications, then the two
  additions from left to right.
\<close>

definition calories_fp :: "NutritionVector \<Rightarrow> real option" where
  "calories_fp v =
     (case (fl (9 * fat v), fl (4 * carbs v), fl (4 * protein v)) of
        (Some a, Some b, Some c) \<Rightarrow>
          (case fl (a + b) of None \<Rightarrow> None | Some s \<Rightarrow> fl (s + c))
      | _ \<Rightarrow> None)"

text \<open>
  \<^verbatim>\<open>Product.__init__\<close> in double arithmetic: the division \<^verbatim>\<open>1/serving_size\<close>, then the
  scaling of the per-serving vector by its result.
\<close>

definition Product_init_fp ::
    "string \<Rightarrow> real \<Rightarrow> real \<Rightarrow> real pydict \<Rightarrow> py_error + Product option" where
  "Product_init_fp nm ssize savail nutrients =
     (case NutritionVector_kwargs nutrients of
        Inl e \<Rightarrow> Inl e
      | Inr raw \<Rightarrow>
          if ssize = 0 then Inl ZeroDivisionError
          else Inr (case fl (1 / ssize) of
                      None \<Rightarrow> None
                    | Some r \<Rightarrow>
                        (case scale_fp raw r of
                           None \<Rightarrow> None
                         | Some n \<Rightarrow>
                             Some \<lparr>name = nm, serving_size = ssize,
                                   servings_available = savail, nutrition = n\<rparr>)))"

text \<open>
  The bookkeeping of rounding errors: \<open>x'\<close> approximates \<open>x\<close> after at most \<open>n\<close>
  roundings, relative to a magnitude \<open>m\<close> that bounds \<open>\<bar>x\<bar>\<close>.
\<close>

definition rounded_within :: "nat \<Rightarrow> real \<Rightarrow> real \<Rightarrow> real \<Rightarrow> bool" where
  "rounded_within n x' x m \<longleftrightarrow> \<bar>x' - x\<bar> \<le> ((1 + 1 / 2 ^ 53) ^ n - 1) * m \<and> \<bar>x\<bar> \<le> m"

section \<open>Notions used in the statements\<close>

text \<open>
  The variable that \<^verbatim>\<open>LpVariable.dicts('Mixture', names, 0)\<close> creates for an index.
\<close>

definition Mixture_var :: "string \<Rightarrow> LpVariable" where
  "Mixture_var n = \<lparr>var_name = ''Mixture_'' @ n, lowBound = Some 0, upBound = None, cat = LpContinuous\<rparr>"

text \<open>
  The dictionaries of the first loop are keyed by name, so under the name of a product
  they hold the data of the last product of the list that has this name: the product
  itself when the names are pairwise distinct. \<open>grams_cap\<close> is the value of
  \<^verbatim>\<open>grams_available[p.name]\<close> after the loop.
\<close>

definition last_named :: "Product list \<Rightarrow> string \<Rightarrow> Product option" where
  "last_named ps n = find (\<lambda>p. name p = n) (rev ps)"

definition stored_for :: "Product list \<Rightarrow> Product \<Rightarrow> Product" where
  "stored_for ps p = (case last_named ps (name p) of None \<Rightarrow> p | Some q \<Rightarrow> q)"

definition grams_cap :: "Product list \<Rightarrow> Product \<Rightarrow> real" where
  "grams_cap ps p = serving_size (stored_for ps p) * servings_available (stored_for ps p)"

text \<open>
  The model that the builder returns when no label is refused, written down directly.
\<close>

definition built_model :: "Product list \<Rightarrow> NutritionVector \<Rightarrow> Model" where
  "built_model ps t =
     \<lparr>mixture_vars = LpVariable_dicts ''Mixture'' (map name ps) (Some 0),
          fat_sum = map (\<lambda>p. (fat (nutrition (stored_for ps p)), Mixture_var (name p))) ps,
          carb_sum = map (\<lambda>p. (carbs (nutrition (stored_for ps p)), Mixture_var (name p))) ps,
          protein_sum = map (\<lambda>p. (protein (nutrition (stored_for ps p)), Mixture_var (name p))) ps,
          prob = \<lparr>prob_name = ''Macro Blending'', prob_sense = LpMaximize,
            constraints =
              [(Fat_target,
                 \<lparr>expr = map (\<lambda>p. (fat (nutrition (stored_for ps p)), Mixture_var (name p))) ps,
                  sense = LpConstraintEQ, rhs = fat t\<rparr>),
               (Carbs_target,
                 \<lparr>expr = map (\<lambda>p. (carbs (nutrition (stored_for ps p)), Mixture_var (name p))) ps,
                  sense = LpConstraintEQ, rhs = carbs t\<rparr>),
               (Protein_target,
                 \<lparr>expr = map (\<lambda>p. (protein (nutrition (stored_for ps p)), Mixture_var (name p))) ps,
                  sense = LpConstraintEQ, rhs = protein t\<rparr>)]
              @ concat (map (\<lambda>p.
                  [(Gram_upper_bound_for (grams_cap ps p) (name p),
                     \<lparr>expr = [(1, Mixture_var (name p))], sense = LpConstraintLE, rhs = grams_cap ps p\<rparr>),
                   (Gram_lower_bound_for 0 (name p),
                     \<lparr>expr = [(1, Mixture_var (name p))], sense = LpConstraintGE, rhs = 0\<rparr>)]) ps)\<rparr>\<rparr>"

text \<open>
  The grams the code reads for a product at line 69; 0 stands for a read that finds no
  value.
\<close>

definition grams_of :: "Model \<Rightarrow> (string \<Rightarrow> real option) \<Rightarrow> Product \<Rightarrow> real" where
  "grams_of m val p = (case read_varValue (mixture_vars m) val p of Inr (Some x) \<Rightarrow> x | _ \<Rightarrow> 0)"

text \<open>
  Two products with the same name and the same per-gram nutrition, the second with at
  least the grams available of the first.
\<close>

definition widened :: "Product \<Rightarrow> Product \<Rightarrow> bool" where
  "widened q q' \<longleftrightarrow> name q' = name q \<and> nutrition q' = nutrition q
     \<and> serving_size q * servings_available q \<le> serving_size q' * servings_available q'"

text \<open>
  Sample data: the product and the targets of the spec's scenarios A and B, and a
  product with no servings available.
\<close>

abbreviation oats :: Product where
  "oats \<equiv> \<lparr>name = ''oats'', serving_size = 50, servings_available = 10,
            nutrition = \<lparr>fat = 1 / 10, carbs = 1 / 5, protein = 1 / 20\<rparr>\<rparr>"

abbreviation rice :: Product where
  "rice \<equiv> \<lparr>name = ''rice'', serving_size = 100, servings_available = 0,
            nutrition = \<lparr>fat = 0, carbs = 1 / 4, protein = 1 / 50\<rparr>\<rparr>"

abbreviation scenario_A :: NutritionVector where
  "scenario_A \<equiv> \<lparr>fat = 5, carbs = 10, protein = 5 / 2\<rparr>"

abbreviation scenario_B :: NutritionVector where
  "scenario_B \<equiv> \<lparr>fat = 100, carbs = 10, protein = 5 / 2\<rparr>"

section \<open>Properties of NutritionVector and Product\<close>

text \<open>
  C8. For every NutritionVector, \<^verbatim>\<open>calories\<close> is 9 times fat plus 4 times carbs plus
  4 times protein: a total function of the three fields, with no error result.
\<close>

theorem calories_formula:
  "calories \<lparr>fat = f, carbs = c, protein = p\<rparr> = 9 * f + 4 * c + 4 * p"
  by (simp add: calories_def)

text \<open>
  C4, as the code has it. The constructor validates nothing: with well-formed nutrients
  it fails exactly when the serving size is zero (the division raises), and for every
  other serving size, negative ones included, it returns the Product whose per-gram
  vector is the per-serving vector scaled by \<open>1 / serving_size\<close>.
\<close>

theorem Product_init_fails_only_at_zero:
  assumes "NutritionVector_kwargs nutrients = Inr raw"
  shows "Product_init nm ssize savail nutrients =
           (if ssize = 0 then Inl ZeroDivisionError
            else Inr \<lparr>name = nm, serving_size = ssize, servings_available = savail,
                      nutrition = scale raw (1 / ssize)\<rparr>)"
  using assms by (simp add: Product_init_def)

theorem Product_init_fails_only_at_zero_witness:
  "NutritionVector_kwargs [(''fat'', 1), (''carbs'', 2), (''protein'', 3)]
       = Inr \<lparr>fat = 1, carbs = 2, protein = 3\<rparr>
   \<and> Product_init ''x'' 0 1 [(''fat'', 1), (''carbs'', 2), (''protein'', 3)]
       = Inl ZeroDivisionError"
proof -
  have k: "NutritionVector_kwargs [(''fat'', 1), (''carbs'', 2), (''protein'', 3)]
             = Inr \<lparr>fat = 1, carbs = 2, protein = 3\<rparr>"
    by (simp add: NutritionVector_kwargs_def)
  from Product_init_fails_only_at_zero [OF k, of "''x''" 0 1] k show ?thesis by simp
qed

text \<open>
  The claim C4 as the spec states it fails: a negative serving size is accepted, and the
  Product carries the negated per-gram vector.
\<close>

theorem Product_init_negative_serving_size_counterexample:
  "(-1::real) \<le> 0
   \<and> Product_init ''x'' (-1) 1 [(''fat'', 1), (''carbs'', 2), (''protein'', 3)]
       = Inr \<lparr>name = ''x'', serving_size = -1, servings_available = 1,
               nutrition = \<lparr>fat = -1, carbs = -2, protein = -3\<rparr>\<rparr>"
  by (simp add: Product_init_def NutritionVector_kwargs_def scale_def)

section \<open>Rounding to the nearest double\<close>

text \<open>
  The binade brackets its argument, so one rounding moves a value by at most \<open>2\<^sup>-\<^sup>5\<^sup>3\<close>
  times its magnitude; a bracket found by hand gives the rounded value of a concrete
  number.
\<close>

lemma binade_bounds_ge1:
  assumes "1 \<le> \<bar>t\<bar>"
  shows "2 powi (binade t) \<le> \<bar>t\<bar> \<and> \<bar>t\<bar> < 2 powi (binade t + 1)"
proof -
  define n where "n = nat \<lfloor>\<bar>t\<bar>\<rfloor>"
  define L where "L = floorlog 2 n"
  have n_pos: "0 < n" using assms by (simp add: n_def)
  have n_le: "real n \<le> \<bar>t\<bar>" and n_gt: "\<bar>t\<bar> < real n + 1"
    using assms by (simp_all add: n_def)
  have b: "2 ^ (L - 1) \<le> n" "n < 2 ^ L"
    using floorlog_bounds [of n 2] n_pos by (simp_all add: L_def)
  have L_pos: "0 < L" using n_pos by (simp add: L_def floorlog_def)
  have bin: "binade t = int L - 1" using assms by (simp add: binade_def n_def L_def)
  have e1: "(2::real) powi (int L - 1) = 2 ^ (L - 1)"
    using L_pos by (simp add: power_int_def nat_diff_distrib')
  have e2: "(2::real) powi (int L - 1 + 1) = 2 ^ L"
    by (simp add: power_int_def)
  have "(2::real) ^ (L - 1) \<le> real n"
    using b(1) by (metis of_nat_le_iff of_nat_numeral of_nat_power)
  then have lo: "(2::real) ^ (L - 1) \<le> \<bar>t\<bar>" using n_le by linarith
  have "real (Suc n) \<le> real (2 ^ L)" using b(2) by (metis Suc_leI of_nat_mono)
  then have "real n + 1 \<le> (2::real) ^ L" by simp
  then have hi: "\<bar>t\<bar> < (2::real) ^ L" using n_gt by linarith
  show ?thesis using lo hi by (simp add: bin e1 e2)
qed

lemma binade_bounds_lt1:
  assumes "t \<noteq> 0" and "\<bar>t\<bar> < 1"
  shows "2 powi (binade t) \<le> \<bar>t\<bar> \<and> \<bar>t\<bar> < 2 powi (binade t + 1)"
proof -
  define r where "r = 1 / \<bar>t\<bar>"
  define K where "K = nat (\<lceil>r\<rceil> - 1)"
  define L where "L = floorlog 2 K"
  have t_pos: "0 < \<bar>t\<bar>" using assms(1) by simp
  have r_gt: "1 < r" using assms t_pos by (simp add: r_def)
  have c2: "2 \<le> \<lceil>r\<rceil>" using r_gt by linarith
  have K_pos: "0 < K" using c2 by (simp add: K_def)
  have K_lt: "real K < r" and K_ge: "r \<le> real K + 1"
    using c2 by (simp_all add: K_def) linarith+
  have b: "2 ^ (L - 1) \<le> K" "K < 2 ^ L"
    using floorlog_bounds [of K 2] K_pos by (simp_all add: L_def)
  have L_pos: "0 < L" using K_pos by (simp add: L_def floorlog_def)
  have bin: "binade t = - int L" using assms by (simp add: binade_def K_def L_def r_def)
  have e1: "(2::real) powi (- int L) = 1 / 2 ^ L"
    by (simp add: power_int_def divide_simps)
  have e2: "(2::real) powi (- int L + 1) = 1 / 2 ^ (L - 1)"
    using L_pos by (cases L) (simp_all add: power_int_def divide_simps)
  have "real (Suc K) \<le> real (2 ^ L)" using b(2) by (metis Suc_leI of_nat_mono)
  then have "real K + 1 \<le> (2::real) ^ L" by simp
  then have "r \<le> 2 ^ L" using K_ge by linarith
  then have lo: "1 / 2 ^ L \<le> \<bar>t\<bar>"
    using t_pos by (simp add: r_def divide_simps mult.commute)
  have "(2::real) ^ (L - 1) \<le> real K"
    using b(1) by (metis of_nat_le_iff of_nat_numeral of_nat_power)
  then have "2 ^ (L - 1) < r" using K_lt by linarith
  then have hi: "\<bar>t\<bar> < 1 / 2 ^ (L - 1)"
    using t_pos by (simp add: r_def divide_simps mult.commute)
  show ?thesis unfolding bin e1 e2 using lo hi by simp
qed

lemma binade_bounds:
  "t \<noteq> 0 \<Longrightarrow> 2 powi (binade t) \<le> \<bar>t\<bar> \<and> \<bar>t\<bar> < 2 powi (binade t + 1)"
  using binade_bounds_ge1 [of t] binade_bounds_lt1 [of t] by (cases "1 \<le> \<bar>t\<bar>") auto

lemma rint_error: "\<bar>of_int (rint y) - y\<bar> \<le> 1 / 2"
  unfolding rint_def Let_def by (auto simp: abs_le_iff)

lemma binade_unique:
  assumes lo: "2 powi e \<le> \<bar>t\<bar>" and hi: "\<bar>t\<bar> < 2 powi (e + 1)"
  shows "binade t = e"
proof -
  have pos: "(0::real) < 2 powi e" by simp
  have t: "t \<noteq> 0"
  proof
    assume "t = 0"
    with lo have "2 powi e \<le> (0::real)" by simp
    with pos show False by linarith
  qed
  note b = binade_bounds [OF t]
  have "\<not> binade t < e"
  proof
    assume "binade t < e"
    then have "(2::real) powi (binade t + 1) \<le> 2 powi e"
      by (intro power_int_increasing) auto
    with b lo show False by linarith
  qed
  moreover have "\<not> e < binade t"
  proof
    assume "e < binade t"
    then have "(2::real) powi (e + 1) \<le> 2 powi (binade t)"
      by (intro power_int_increasing) auto
    with b hi show False by linarith
  qed
  ultimately show ?thesis by linarith
qed

lemma double_round_error:
  assumes t: "t \<noteq> 0"
  shows "\<bar>double_round t - t\<bar> \<le> \<bar>t\<bar> / 2 ^ 53"
proof -
  define q :: real where "q = 2 powi (binade t - 52)"
  have q_pos: "0 < q" by (simp add: q_def)
  have q_eq: "q = 2 powi (binade t) / 2 ^ 52"
    by (simp add: q_def power_int_diff)
  have "\<bar>double_round t - t\<bar> = \<bar>of_int (rint (t / q)) - t / q\<bar> * q"
  proof -
    have "double_round t - t = (of_int (rint (t / q)) - t / q) * q"
      using t q_pos by (simp add: double_round_def q_def field_simps)
    then show ?thesis using q_pos by (simp add: abs_mult)
  qed
  also have "\<dots> \<le> (1 / 2) * q"
    using q_pos by (intro mult_right_mono rint_error) simp
  also have "\<dots> = 2 powi (binade t) / 2 ^ 53"
    by (simp add: q_eq)
  also have "\<dots> \<le> \<bar>t\<bar> / 2 ^ 53"
    using binade_bounds [OF t] by (simp add: divide_right_mono)
  finally show ?thesis .
qed

lemma fl_error: "fl t = Some t' \<Longrightarrow> \<bar>t' - t\<bar> \<le> \<bar>t\<bar> / 2 ^ 53"
  using double_round_error [of t]
  by (cases "t = 0") (auto simp: fl_def double_round_def split: if_splits)

lemma fl_zero: "fl 0 = Some 0"
  by (simp add: fl_def in_range_def double_round_def)

lemma in_range_moderate:
  assumes "1 / 2 ^ 1022 \<le> \<bar>t\<bar>" and "\<bar>t\<bar> \<le> 2 ^ 1023"
  shows "in_range t"
proof -
  have "(2::real) ^ 1023 < 2 powi 1024 - 2 powi 970" by simp
  moreover have "(2::real) powi (- 1022) = 1 / 2 ^ 1022"
    by (simp add: power_int_minus_divide)
  ultimately show ?thesis using assms by (simp add: in_range_def)
qed

lemma fl_eval:
  assumes "2 powi e \<le> \<bar>t\<bar>" and "\<bar>t\<bar> < 2 powi (e + 1)"
    and "1 / 2 ^ 1022 \<le> \<bar>t\<bar>" and "\<bar>t\<bar> \<le> 2 ^ 1023"
  shows "fl t = Some (of_int (rint (t / 2 powi (e - 52))) * 2 powi (e - 52))"
proof -
  have pos: "(0::real) < 2 powi e" by simp
  have t: "t \<noteq> 0"
  proof
    assume "t = 0"
    with assms(1) have "2 powi e \<le> (0::real)" by simp
    with pos show False by linarith
  qed
  show ?thesis
    using t by (simp add: fl_def in_range_moderate [OF assms(3,4)] double_round_def
        binade_unique [OF assms(1,2)])
qed

text \<open>
  Rounding errors add up: one more rounding, an exact scaling and an exact sum of two
  approximations.
\<close>

lemma growth_nonneg: "0 \<le> (1 + 1 / 2 ^ 53 :: real) ^ n - 1"
proof -
  have "(1::real) \<le> (1 + 1 / 2 ^ 53) ^ n" by (rule one_le_power) simp
  then show ?thesis by simp
qed

lemma rounded_within_exact: "\<bar>x\<bar> \<le> m \<Longrightarrow> rounded_within 0 x x m"
  by (simp add: rounded_within_def)

lemma rounded_within_mono:
  assumes "rounded_within n x' x m" and "n \<le> k"
  shows "rounded_within k x' x m"
proof -
  have m: "0 \<le> m" using assms(1) by (auto simp: rounded_within_def)
  have "(1 + 1 / 2 ^ 53 :: real) ^ n \<le> (1 + 1 / 2 ^ 53) ^ k"
    using assms(2) by (intro power_increasing) simp_all
  then have "((1 + 1 / 2 ^ 53 :: real) ^ n - 1) * m \<le> ((1 + 1 / 2 ^ 53) ^ k - 1) * m"
    using m by (intro mult_right_mono) simp_all
  then show ?thesis using assms(1) by (auto simp: rounded_within_def)
qed

lemma rounded_within_fl:
  assumes w: "rounded_within n x' x m" and f: "fl x' = Some y"
  shows "rounded_within (Suc n) y x m"
proof -
  let ?g = "(1 + 1 / 2 ^ 53 :: real) ^ n"
  have m: "\<bar>x\<bar> \<le> m" and d: "\<bar>x' - x\<bar> \<le> (?g - 1) * m"
    using w by (simp_all add: rounded_within_def)
  have "\<bar>x'\<bar> \<le> \<bar>x\<bar> + \<bar>x' - x\<bar>" by simp
  also have "\<dots> \<le> m + (?g - 1) * m" using m d by simp
  also have "\<dots> = ?g * m" by (simp add: algebra_simps)
  finally have x': "\<bar>x'\<bar> \<le> ?g * m" .
  have "\<bar>y - x\<bar> \<le> \<bar>y - x'\<bar> + \<bar>x' - x\<bar>" by simp
  also have "\<dots> \<le> \<bar>x'\<bar> / 2 ^ 53 + (?g - 1) * m"
    using fl_error [OF f] d by simp
  also have "\<dots> \<le> (?g * m) / 2 ^ 53 + (?g - 1) * m"
    using x' by (simp add: divide_right_mono)
  also have "\<dots> = ((1 + 1 / 2 ^ 53) ^ Suc n - 1) * m"
    by (simp add: algebra_simps)
  finally show ?thesis using m by (simp add: rounded_within_def)
qed

lemma rounded_within_scale:
  assumes "rounded_within n x' x m"
  shows "rounded_within n (c * x') (c * x) (\<bar>c\<bar> * m)"
proof -
  have m: "\<bar>x\<bar> \<le> m" and d: "\<bar>x' - x\<bar> \<le> ((1 + 1 / 2 ^ 53) ^ n - 1) * m"
    using assms by (simp_all add: rounded_within_def)
  have "\<bar>c * x' - c * x\<bar> = \<bar>c\<bar> * \<bar>x' - x\<bar>"
    by (simp add: abs_mult flip: right_diff_distrib)
  also have "\<dots> \<le> \<bar>c\<bar> * (((1 + 1 / 2 ^ 53) ^ n - 1) * m)"
    using d by (intro mult_left_mono) simp_all
  finally have 1: "\<bar>c * x' - c * x\<bar> \<le> ((1 + 1 / 2 ^ 53) ^ n - 1) * (\<bar>c\<bar> * m)"
    by (simp add: mult_ac)
  have 2: "\<bar>c * x\<bar> \<le> \<bar>c\<bar> * m"
    using m by (simp add: abs_mult mult_left_mono)
  from 1 2 show ?thesis by (simp add: rounded_within_def)
qed

lemma rounded_within_add:
  assumes "rounded_within n x' x m" and "rounded_within n y' y m'"
  shows "rounded_within n (x' + y') (x + y) (m + m')"
proof -
  have "\<bar>x' + y' - (x + y)\<bar> \<le> \<bar>x' - x\<bar> + \<bar>y' - y\<bar>" by simp
  moreover have "\<bar>x + y\<bar> \<le> \<bar>x\<bar> + \<bar>y\<bar>" by simp
  ultimately show ?thesis
    using assms by (auto simp: rounded_within_def algebra_simps)
qed

lemma rounded_within_mul_fl:
  assumes "fl (x * k) = Some y"
  shows "rounded_within 1 y (x * k) \<bar>x * k\<bar>"
  using rounded_within_fl [OF rounded_within_exact [of "x * k" "\<bar>x * k\<bar>"] assms] by simp

lemma three_roundings: "(1 + 1 / 2 ^ 53 :: real) ^ 3 - 1 \<le> 1 / 2 ^ 51"
  by (simp add: power3_eq_cube field_simps)

lemma four_roundings: "(1 + 1 / 2 ^ 53 :: real) ^ 4 - 1 \<le> 1 / 2 ^ 50"
  by (simp add: power4_eq_xxxx field_simps)

lemma roundtrip_field:
  assumes s: "0 < s" and r: "fl (1 / s) = Some r"
    and y: "fl (x * r) = Some y" and z: "fl (y * s) = Some z"
  shows "\<bar>z - x\<bar> \<le> \<bar>x\<bar> / 2 ^ 51"
proof -
  have "rounded_within 1 r (1 / s) (1 / s)"
    using rounded_within_fl [OF rounded_within_exact [of "1 / s" "1 / s"] r] s by simp
  then have "rounded_within 1 (x * r) (x * (1 / s)) (\<bar>x\<bar> * (1 / s))"
    by (rule rounded_within_scale)
  then have "rounded_within 2 y (x * (1 / s)) (\<bar>x\<bar> * (1 / s))"
    using rounded_within_fl [OF _ y] by (simp add: numeral_2_eq_2)
  then have "rounded_within 2 (s * y) (s * (x * (1 / s))) (\<bar>s\<bar> * (\<bar>x\<bar> * (1 / s)))"
    by (rule rounded_within_scale)
  then have "rounded_within 2 (y * s) x \<bar>x\<bar>"
    using s by (simp add: mult.commute)
  then have "rounded_within 3 z x \<bar>x\<bar>"
    using rounded_within_fl [OF _ z] by (simp add: numeral_3_eq_3 numeral_2_eq_2)
  then have "\<bar>z - x\<bar> \<le> ((1 + 1 / 2 ^ 53) ^ 3 - 1) * \<bar>x\<bar>"
    by (simp add: rounded_within_def)
  also have "\<dots> \<le> (1 / 2 ^ 51) * \<bar>x\<bar>"
    by (intro mult_right_mono three_roundings) simp
  finally show ?thesis by simp
qed

lemma scale_fp_Some:
  assumes "scale_fp v k = Some w"
  shows "fl (fat v * k) = Some (fat w)" and "fl (carbs v * k) = Some (carbs w)"
    and "fl (protein v * k) = Some (protein w)"
  using assms by (auto simp: scale_fp_def split: option.splits)

lemma calories_fp_within:
  assumes c: "calories_fp v = Some c"
    and f: "rounded_within n (fat v) F MF"
    and g: "rounded_within n (carbs v) C MC"
    and h: "rounded_within n (protein v) P MP"
  shows "rounded_within (n + 3) c (9 * F + 4 * C + 4 * P) (9 * MF + 4 * MC + 4 * MP)"
proof -
  from c obtain a b d s where a: "fl (9 * fat v) = Some a" and b: "fl (4 * carbs v) = Some b"
      and d: "fl (4 * protein v) = Some d" and s: "fl (a + b) = Some s"
      and e: "fl (s + d) = Some c"
    by (auto simp: calories_fp_def split: option.splits)
  have wa: "rounded_within (Suc n) a (9 * F) (9 * MF)"
    using rounded_within_fl [OF rounded_within_scale [OF f, of 9] a] by simp
  have wb: "rounded_within (Suc n) b (4 * C) (4 * MC)"
    using rounded_within_fl [OF rounded_within_scale [OF g, of 4] b] by simp
  have wd: "rounded_within (Suc n) d (4 * P) (4 * MP)"
    using rounded_within_fl [OF rounded_within_scale [OF h, of 4] d] by simp
  have ws: "rounded_within (Suc (Suc n)) s (9 * F + 4 * C) (9 * MF + 4 * MC)"
    by (rule rounded_within_fl [OF rounded_within_add [OF wa wb] s])
  have wd': "rounded_within (Suc (Suc n)) d (4 * P) (4 * MP)"
    by (rule rounded_within_mono [OF wd]) simp
  have "rounded_within (Suc (Suc (Suc n))) c (9 * F + 4 * C + 4 * P) (9 * MF + 4 * MC + 4 * MP)"
    by (rule rounded_within_fl [OF rounded_within_add [OF ws wd'] e])
  then show ?thesis by (simp add: eval_nat_numeral)
qed

text \<open>
  The roundings of the two runs below: \<^verbatim>\<open>1/49\<close>, the products of the round trip of
  (1, 2, 3) at serving size 49, and the products of (5, 0, 0) scaled by the double 0.7.
\<close>

lemma fl_1: "fl (1 / 49) = Some (5882252574524729 / 288230376151711744)"
  by (subst fl_eval [where e = "-6"]) (simp_all add: rint_def power_int_minus_divide)

lemma fl_2: "fl (5882252574524729 / 288230376151711744) = Some (5882252574524729 / 288230376151711744)"
  by (subst fl_eval [where e = "-6"]) (simp_all add: rint_def power_int_minus_divide)

lemma fl_3: "fl (5882252574524729 / 144115188075855872) = Some (5882252574524729 / 144115188075855872)"
  by (subst fl_eval [where e = "-5"]) (simp_all add: rint_def power_int_minus_divide)

lemma fl_4: "fl (17646757723574187 / 288230376151711744) = Some (4411689430893547 / 72057594037927936)"
  by (subst fl_eval [where e = "-5"]) (simp_all add: rint_def power_int_minus_divide)

lemma fl_5: "fl (288230376151711721 / 288230376151711744) = Some (9007199254740991 / 9007199254740992)"
  by (subst fl_eval [where e = "-1"]) (simp_all add: rint_def power_int_minus_divide)

lemma fl_6: "fl (288230376151711721 / 144115188075855872) = Some (9007199254740991 / 4503599627370496)"
  by (subst fl_eval [where e = "0"]) (simp_all add: rint_def power_int_minus_divide)

lemma fl_7: "fl (216172782113783803 / 72057594037927936) = Some (3)"
  by (subst fl_eval [where e = "1"]) (simp_all add: rint_def power_int_minus_divide)

lemma fl_8: "fl (15762598695796735 / 4503599627370496) = Some (7 / 2)"
  by (subst fl_eval [where e = "1"]) (simp_all add: rint_def power_int_minus_divide)

lemma fl_9: "fl (63 / 2) = Some (63 / 2)"
  by (subst fl_eval [where e = "4"]) (simp_all add: rint_def power_int_minus_divide)

lemma fl_10: "fl (45) = Some (45)"
  by (subst fl_eval [where e = "5"]) (simp_all add: rint_def power_int_minus_divide)

lemma fl_11: "fl (141863388262170615 / 4503599627370496) = Some (8866461766385663 / 281474976710656)"
  by (subst fl_eval [where e = "4"]) (simp_all add: rint_def power_int_minus_divide)

lemma init_49:
  "Product_init_fp ''x'' 49 1 [(''fat'', 1), (''carbs'', 2), (''protein'', 3)]
     = Inr (Some \<lparr>name = ''x'', serving_size = 49, servings_available = 1,
             nutrition = \<lparr>fat = 5882252574524729 / 2 ^ 58, carbs = 5882252574524729 / 2 ^ 57,
                          protein = 4411689430893547 / 2 ^ 56\<rparr>\<rparr>)"
  by (simp add: Product_init_fp_def NutritionVector_kwargs_def scale_fp_def fl_1 fl_2 fl_3 fl_4)

lemma back_49:
  "scale_fp \<lparr>fat = 5882252574524729 / 2 ^ 58, carbs = 5882252574524729 / 2 ^ 57,
             protein = 4411689430893547 / 2 ^ 56\<rparr> 49
     = Some \<lparr>fat = 1 - 1 / 2 ^ 53, carbs = 2 - 1 / 2 ^ 52, protein = 3\<rparr>"
  by (simp add: scale_fp_def fl_5 fl_6 fl_7)

lemma scale_07:
  "scale_fp \<lparr>fat = 5, carbs = 0, protein = 0\<rparr> (3152519739159347 / 2 ^ 52)
     = Some \<lparr>fat = 7 / 2, carbs = 0, protein = 0\<rparr>"
  by (simp add: scale_fp_def fl_8 fl_zero)

lemma calories_scaled_07: "calories_fp \<lparr>fat = 7 / 2, carbs = 0, protein = 0\<rparr> = Some (63 / 2)"
  by (simp add: calories_fp_def fl_9 fl_zero)

lemma calories_07: "calories_fp \<lparr>fat = 5, carbs = 0, protein = 0\<rparr> = Some 45"
  by (simp add: calories_fp_def fl_10 fl_zero)

lemma times_07: "fl (3152519739159347 / 2 ^ 52 * 45) = Some (63 / 2 - 1 / 2 ^ 48)"
  using fl_11 by simp

section \<open>Properties of NutritionVector and Product in double arithmetic\<close>

text \<open>
  C6, as the code has it. The constructor and \<^verbatim>\<open>scale\<close> multiply doubles, so the round
  trip holds up to rounding and not exactly: for a positive serving size, when the
  division and the multiplications stay in the range of the normal doubles, every field
  of \<^verbatim>\<open>nutrition.scale(serving_size)\<close> differs from the per-serving input by at most
  \<open>2\<^sup>-\<^sup>5\<^sup>1\<close> times the magnitude of the input (three roundings).
\<close>

theorem Product_fp_roundtrip_within_rounding:
  assumes k: "NutritionVector_kwargs nutrients = Inr raw" and s: "0 < ssize"
    and i: "Product_init_fp nm ssize savail nutrients = Inr (Some p)"
    and bk: "scale_fp (nutrition p) (serving_size p) = Some back"
  shows "\<bar>fat back - fat raw\<bar> \<le> \<bar>fat raw\<bar> / 2 ^ 51
       \<and> \<bar>carbs back - carbs raw\<bar> \<le> \<bar>carbs raw\<bar> / 2 ^ 51
       \<and> \<bar>protein back - protein raw\<bar> \<le> \<bar>protein raw\<bar> / 2 ^ 51"
proof -
  from i k s obtain r n where r: "fl (1 / ssize) = Some r"
      and n: "scale_fp raw r = Some n"
      and p: "nutrition p = n" "serving_size p = ssize"
    by (auto simp: Product_init_fp_def split: option.splits)
  note fw = scale_fp_Some [OF n]
  note bw = scale_fp_Some [OF bk [unfolded p]]
  show ?thesis
    using roundtrip_field [OF s r fw(1) bw(1)] roundtrip_field [OF s r fw(2) bw(2)]
      roundtrip_field [OF s r fw(3) bw(3)]
    by simp
qed

theorem Product_fp_roundtrip_within_rounding_witness:
  "NutritionVector_kwargs [(''fat'', 1), (''carbs'', 2), (''protein'', 3)]
     = Inr \<lparr>fat = 1, carbs = 2, protein = 3\<rparr>
   \<and> (0::real) < 49
   \<and> Product_init_fp ''x'' 49 1 [(''fat'', 1), (''carbs'', 2), (''protein'', 3)]
     = Inr (Some \<lparr>name = ''x'', serving_size = 49, servings_available = 1,
             nutrition = \<lparr>fat = 5882252574524729 / 2 ^ 58, carbs = 5882252574524729 / 2 ^ 57,
                          protein = 4411689430893547 / 2 ^ 56\<rparr>\<rparr>)
   \<and> \<bar>(1 - 1 / 2 ^ 53) - 1\<bar> \<le> \<bar>1 :: real\<bar> / 2 ^ 51
   \<and> \<bar>(2 - 1 / 2 ^ 52) - 2\<bar> \<le> \<bar>2 :: real\<bar> / 2 ^ 51
   \<and> \<bar>3 - 3\<bar> \<le> \<bar>3 :: real\<bar> / 2 ^ 51"
proof -
  have k: "NutritionVector_kwargs [(''fat'', 1), (''carbs'', 2), (''protein'', 3)]
     = Inr \<lparr>fat = 1, carbs = 2, protein = 3\<rparr>"
    by (simp add: NutritionVector_kwargs_def)
  have s: "(0::real) < 49" by simp
  have bk: "scale_fp (nutrition \<lparr>name = ''x'', serving_size = 49, servings_available = 1,
             nutrition = \<lparr>fat = 5882252574524729 / 2 ^ 58, carbs = 5882252574524729 / 2 ^ 57,
                          protein = 4411689430893547 / 2 ^ 56\<rparr>\<rparr>)
          (serving_size \<lparr>name = ''x'', serving_size = 49, servings_available = 1,
             nutrition = \<lparr>fat = 5882252574524729 / 2 ^ 58, carbs = 5882252574524729 / 2 ^ 57,
                          protein = 4411689430893547 / 2 ^ 56\<rparr>\<rparr>)
     = Some \<lparr>fat = 1 - 1 / 2 ^ 53, carbs = 2 - 1 / 2 ^ 52, protein = 3\<rparr>"
    using back_49 by simp
  from Product_fp_roundtrip_within_rounding [OF k s init_49 bk] k s init_49
  show ?thesis by simp
qed

text \<open>
  The claim C6 as stated, equality field by field, fails at serving size 49 with the
  per-serving vector (1, 2, 3): the stored vector scaled back is
  (\<open>1 - 2\<^sup>-\<^sup>5\<^sup>3\<close>, \<open>2 - 2\<^sup>-\<^sup>5\<^sup>2\<close>, 3), which Python prints as 0.9999999999999999,
  1.9999999999999998 and 3.0.
\<close>

theorem Product_fp_roundtrip_counterexample:
  "(0::real) < 49
   \<and> Product_init_fp ''x'' 49 1 [(''fat'', 1), (''carbs'', 2), (''protein'', 3)]
     = Inr (Some \<lparr>name = ''x'', serving_size = 49, servings_available = 1,
             nutrition = \<lparr>fat = 5882252574524729 / 2 ^ 58, carbs = 5882252574524729 / 2 ^ 57,
                          protein = 4411689430893547 / 2 ^ 56\<rparr>\<rparr>)
   \<and> scale_fp \<lparr>fat = 5882252574524729 / 2 ^ 58, carbs = 5882252574524729 / 2 ^ 57,
             protein = 4411689430893547 / 2 ^ 56\<rparr> 49
     = Some \<lparr>fat = 1 - 1 / 2 ^ 53, carbs = 2 - 1 / 2 ^ 52, protein = 3\<rparr>
   \<and> \<lparr>fat = 1 - 1 / 2 ^ 53, carbs = 2 - 1 / 2 ^ 52, protein = 3\<rparr>
     \<noteq> \<lparr>fat = 1, carbs = 2, protein = 3\<rparr>"
  using init_49 back_49 by simp

text \<open>
  C9, as the code has it. In double arithmetic \<^verbatim>\<open>calories\<close> is linear under \<^verbatim>\<open>scale\<close>
  up to rounding and not exactly: for every vector and every factor, negative and zero
  included, for which both sides are computed within the range of the normal doubles,
  \<^verbatim>\<open>v.scale(k).calories\<close> and \<^verbatim>\<open>k * v.calories\<close> differ by at most \<open>2\<^sup>-\<^sup>4\<^sup>9\<close> times
  \<open>\<bar>k\<bar> (9 \<bar>fat\<bar> + 4 \<bar>carbs\<bar> + 4 \<bar>protein\<bar>)\<close>.
\<close>

theorem calories_fp_scale_within_rounding:
  assumes w: "scale_fp v k = Some w" and l: "calories_fp w = Some lv"
    and c: "calories_fp v = Some c" and r: "fl (k * c) = Some rv"
  shows "\<bar>lv - rv\<bar> \<le> \<bar>k\<bar> * (9 * \<bar>fat v\<bar> + 4 * \<bar>carbs v\<bar> + 4 * \<bar>protein v\<bar>) / 2 ^ 49"
proof -
  let ?E = "k * (9 * fat v + 4 * carbs v + 4 * protein v)"
  let ?S = "\<bar>k\<bar> * (9 * \<bar>fat v\<bar> + 4 * \<bar>carbs v\<bar> + 4 * \<bar>protein v\<bar>)"
  note fw = scale_fp_Some [OF w]
  have "rounded_within (1 + 3) lv
        (9 * (fat v * k) + 4 * (carbs v * k) + 4 * (protein v * k))
        (9 * \<bar>fat v * k\<bar> + 4 * \<bar>carbs v * k\<bar> + 4 * \<bar>protein v * k\<bar>)"
    by (rule calories_fp_within [OF l rounded_within_mul_fl [OF fw(1)]
          rounded_within_mul_fl [OF fw(2)] rounded_within_mul_fl [OF fw(3)]])
  then have L: "rounded_within 4 lv ?E ?S"
    by (simp add: algebra_simps abs_mult)
  have "rounded_within (0 + 3) c (9 * fat v + 4 * carbs v + 4 * protein v)
        (9 * \<bar>fat v\<bar> + 4 * \<bar>carbs v\<bar> + 4 * \<bar>protein v\<bar>)"
    by (rule calories_fp_within [OF c]) (simp_all add: rounded_within_exact)
  then have "rounded_within 3 (k * c) ?E ?S"
    using rounded_within_scale [of 3 c _ _ k] by simp
  then have R: "rounded_within 4 rv ?E ?S"
    using rounded_within_fl [OF _ r] by (simp add: eval_nat_numeral)
  have S: "0 \<le> ?S" by simp
  have "\<bar>lv - rv\<bar> \<le> \<bar>lv - ?E\<bar> + \<bar>rv - ?E\<bar>" by simp
  also have "\<dots> \<le> ((1 + 1 / 2 ^ 53) ^ 4 - 1) * ?S + ((1 + 1 / 2 ^ 53) ^ 4 - 1) * ?S"
    using L R unfolding rounded_within_def by (intro add_mono) blast+
  also have "\<dots> \<le> (1 / 2 ^ 50) * ?S + (1 / 2 ^ 50) * ?S"
    by (intro add_mono mult_right_mono four_roundings S)
  also have "\<dots> = ?S / 2 ^ 49" by simp
  finally show ?thesis .
qed

theorem calories_fp_scale_within_rounding_witness:
  "scale_fp \<lparr>fat = 5, carbs = 0, protein = 0\<rparr> (3152519739159347 / 2 ^ 52)
     = Some \<lparr>fat = 7 / 2, carbs = 0, protein = 0\<rparr>
   \<and> calories_fp \<lparr>fat = 7 / 2, carbs = 0, protein = 0\<rparr> = Some (63 / 2)
   \<and> calories_fp \<lparr>fat = 5, carbs = 0, protein = 0\<rparr> = Some 45
   \<and> fl (3152519739159347 / 2 ^ 52 * 45) = Some (63 / 2 - 1 / 2 ^ 48)
   \<and> \<bar>63 / 2 - (63 / 2 - 1 / 2 ^ 48)\<bar>
       \<le> \<bar>3152519739159347 / 2 ^ 52 :: real\<bar> * (9 * \<bar>5\<bar> + 4 * \<bar>0\<bar> + 4 * \<bar>0\<bar>) / 2 ^ 49"
  using calories_fp_scale_within_rounding [OF scale_07 calories_scaled_07 calories_07 times_07]
    scale_07 calories_scaled_07 calories_07 times_07
  by simp

text \<open>
  The claim C9 as stated, equality, fails for the vector (5, 0, 0) and the factor 0.7,
  the double \<open>3152519739159347 / 2\<^sup>5\<^sup>2\<close>: \<^verbatim>\<open>v.scale(k).calories\<close> is 31.5 and
  \<^verbatim>\<open>k * v.calories\<close> is \<open>31.5 - 2\<^sup>-\<^sup>4\<^sup>8\<close>, which Python prints as 31.499999999999996.
\<close>

theorem calories_fp_scale_counterexample:
  "scale_fp \<lparr>fat = 5, carbs = 0, protein = 0\<rparr> (3152519739159347 / 2 ^ 52)
     = Some \<lparr>fat = 7 / 2, carbs = 0, protein = 0\<rparr>
   \<and> calories_fp \<lparr>fat = 7 / 2, carbs = 0, protein = 0\<rparr> = Some (63 / 2)
   \<and> calories_fp \<lparr>fat = 5, carbs = 0, protein = 0\<rparr> = Some 45
   \<and> fl (3152519739159347 / 2 ^ 52 * 45) = Some (63 / 2 - 1 / 2 ^ 48)
   \<and> (63 / 2 :: real) \<noteq> 63 / 2 - 1 / 2 ^ 48"
  using scale_07 calories_scaled_07 calories_07 times_07 by simp

section \<open>The model builder in closed form\<close>

text \<open>
  Every dictionary read of the builder finds its key. The builder raises exactly when
  two product names are equal after the library's renaming, and otherwise returns the
  model that can be written down directly.
\<close>

lemma find_app:
  "find P (xs @ ys) = (case find P xs of None \<Rightarrow> find P ys | Some x \<Rightarrow> Some x)"
  by (induction xs) simp_all

lemma find_SomeD: "find P xs = Some x \<Longrightarrow> x \<in> set xs \<and> P x"
  by (induction xs) (auto split: if_splits)

lemma find_self: "find (\<lambda>x. x = n) xs = (if n \<in> set xs then Some n else None)"
  by (induction xs) auto

lemma update_fresh_append: "k \<notin> fst ` set al \<Longrightarrow> AList.update k v al = al @ [(k, v)]"
  by (induction al) auto

lemma map_of_setitem: "map_of (setitem d k v) = (map_of d)(k \<mapsto> v)"
  by (simp add: setitem_def update_conv')

lemma map_of_foldl_setitem:
  "map_of (foldl (\<lambda>d x. setitem d (kf x) (vf x)) d xs) n =
     (case find (\<lambda>x. kf x = n) (rev xs) of None \<Rightarrow> map_of d n | Some x \<Rightarrow> Some (vf x))"
proof (induction xs arbitrary: d)
  case Nil
  then show ?case by simp
next
  case (Cons x xs)
  show ?case
    by (simp add: Cons.IH map_of_setitem find_app split: option.splits)
qed

lemma foldl_setitem_distinct:
  "distinct (map kf xs) \<Longrightarrow> kf ` set xs \<inter> fst ` set d = {} \<Longrightarrow>
   foldl (\<lambda>d x. setitem d (kf x) (vf x)) d xs = d @ map (\<lambda>x. (kf x, vf x)) xs"
proof (induction xs arbitrary: d)
  case Nil
  then show ?case by simp
next
  case (Cons x xs)
  have fresh: "kf x \<notin> fst ` set d" using Cons.prems(2) by auto
  have step: "setitem d (kf x) (vf x) = d @ [(kf x, vf x)]"
    by (simp add: setitem_def update_fresh_append fresh)
  have disj: "kf ` set xs \<inter> fst ` set (d @ [(kf x, vf x)]) = {}"
    using Cons.prems by auto
  have dist: "distinct (map kf xs)" using Cons.prems(1) by simp
  show ?case using Cons.IH [OF dist disj] by (simp add: step)
qed

lemma fat_coefs_foldl:
  "fat_coefs (foldl coef_step t ps) =
     foldl (\<lambda>d p. setitem d (name p) (fat (nutrition p))) (fat_coefs t) ps"
  by (induction ps arbitrary: t) (simp_all add: coef_step_def)

lemma carb_coefs_foldl:
  "carb_coefs (foldl coef_step t ps) =
     foldl (\<lambda>d p. setitem d (name p) (carbs (nutrition p))) (carb_coefs t) ps"
  by (induction ps arbitrary: t) (simp_all add: coef_step_def)

lemma protein_coefs_foldl:
  "protein_coefs (foldl coef_step t ps) =
     foldl (\<lambda>d p. setitem d (name p) (protein (nutrition p))) (protein_coefs t) ps"
  by (induction ps arbitrary: t) (simp_all add: coef_step_def)

lemma grams_available_foldl:
  "grams_available (foldl coef_step t ps) =
     foldl (\<lambda>d p. setitem d (name p) (serving_size p * servings_available p)) (grams_available t) ps"
  by (induction ps arbitrary: t) (simp_all add: coef_step_def)

lemma last_named_member:
  "p \<in> set ps \<Longrightarrow> \<exists>q. last_named ps (name p) = Some q \<and> q \<in> set ps \<and> name q = name p"
proof -
  assume "p \<in> set ps"
  then have "find (\<lambda>q. name q = name p) (rev ps) \<noteq> None"
    by (auto simp: find_None_iff)
  then obtain q where q: "find (\<lambda>q. name q = name p) (rev ps) = Some q" by auto
  then have "q \<in> set ps \<and> name q = name p"
    using find_SomeD [OF q] by simp
  with q show ?thesis by (simp add: last_named_def)
qed

lemma getitem_tables:
  assumes "p \<in> set ps"
  shows "getitem (fat_coefs (coef_tables ps)) (name p) = Inr (fat (nutrition (stored_for ps p)))"
    and "getitem (carb_coefs (coef_tables ps)) (name p) = Inr (carbs (nutrition (stored_for ps p)))"
    and "getitem (protein_coefs (coef_tables ps)) (name p) = Inr (protein (nutrition (stored_for ps p)))"
    and "getitem (grams_available (coef_tables ps)) (name p)
           = Inr (serving_size (stored_for ps p) * servings_available (stored_for ps p))"
  using last_named_member [OF assms]
  by (auto simp: getitem_def coef_tables_def fat_coefs_foldl carb_coefs_foldl protein_coefs_foldl
      grams_available_foldl map_of_foldl_setitem stored_for_def last_named_def)

lemma getitem_mixture_vars:
  "getitem (LpVariable_dicts ''Mixture'' idx (Some 0)) n =
     (if n \<in> set idx then Inr (Mixture_var n) else Inl KeyError)"
proof -
  have "find (\<lambda>x. x = n) (rev idx) = (if n \<in> set idx then Some n else None)"
    by (simp add: find_self)
  then show ?thesis
    by (simp add: getitem_def LpVariable_dicts_def map_of_foldl_setitem Mixture_var_def)
qed

lemma map_err_total: "(\<And>x. x \<in> set xs \<Longrightarrow> f x = Inr (g x)) \<Longrightarrow> map_err f xs = Inr (map g xs)"
  by (induction xs) simp_all

lemma weighted_term_tables:
  assumes "p \<in> set ps"
  shows "weighted_term (fat_coefs (coef_tables ps)) (LpVariable_dicts ''Mixture'' (map name ps) (Some 0)) p
           = Inr (fat (nutrition (stored_for ps p)), Mixture_var (name p))"
    and "weighted_term (carb_coefs (coef_tables ps)) (LpVariable_dicts ''Mixture'' (map name ps) (Some 0)) p
           = Inr (carbs (nutrition (stored_for ps p)), Mixture_var (name p))"
    and "weighted_term (protein_coefs (coef_tables ps)) (LpVariable_dicts ''Mixture'' (map name ps) (Some 0)) p
           = Inr (protein (nutrition (stored_for ps p)), Mixture_var (name p))"
  using assms by (simp_all add: weighted_term_def getitem_tables getitem_mixture_vars)

lemma bound_constraints_tables:
  assumes "p \<in> set ps"
  shows "bound_constraints (grams_available (coef_tables ps))
             (LpVariable_dicts ''Mixture'' (map name ps) (Some 0)) p
           = Inr [(Gram_upper_bound_for (grams_cap ps p) (name p),
                    \<lparr>expr = [(1, Mixture_var (name p))], sense = LpConstraintLE, rhs = grams_cap ps p\<rparr>),
                  (Gram_lower_bound_for 0 (name p),
                    \<lparr>expr = [(1, Mixture_var (name p))], sense = LpConstraintGE, rhs = 0\<rparr>)]"
  using assms by (simp add: bound_constraints_def getitem_tables getitem_mixture_vars grams_cap_def)

lemma stored_for_distinct:
  assumes "distinct (map name ps)" and "p \<in> set ps"
  shows "stored_for ps p = p"
proof -
  obtain q where q: "last_named ps (name p) = Some q" "q \<in> set ps" "name q = name p"
    using last_named_member [OF assms(2)] by blast
  have "inj_on name (set ps)" using assms(1) by (simp add: distinct_map)
  then have "q = p" using q(2,3) assms(2) by (auto dest: inj_onD)
  with q(1) show ?thesis by (simp add: stored_for_def)
qed

lemma mixture_vars_distinct:
  assumes "distinct ns"
  shows "LpVariable_dicts ''Mixture'' ns (Some 0) = map (\<lambda>n. (n, Mixture_var n)) ns"
  using foldl_setitem_distinct [where kf = "\<lambda>i. i" and d = "[]" and xs = ns
      and vf = "\<lambda>i. \<lparr>var_name = ''Mixture'' @ ''_'' @ i, lowBound = Some 0, upBound = None,
                      cat = LpContinuous\<rparr>"] assms
  by (simp add: LpVariable_dicts_def Mixture_var_def)

lemma rename_distinct_names:
  "distinct (map (\<lambda>p. pulp_rename (name p)) ps) \<Longrightarrow> distinct (map name ps)"
  by (induction ps) auto

lemma add_bounds_step:
  assumes p: "p \<in> set ps"
    and inv: "\<forall>x n. Gram_upper_bound_for x n \<in> set (map (\<lambda>c. label_key (fst c)) (constraints pr))
        \<longrightarrow> Gram_lower_bound_for 0 n \<in> set (map (\<lambda>c. label_key (fst c)) (constraints pr))"
  shows "add_bounds (grams_available (coef_tables ps))
            (LpVariable_dicts ''Mixture'' (map name ps) (Some 0)) pr p =
     (if Gram_lower_bound_for 0 (pulp_rename (name p))
           \<in> set (map (\<lambda>c. label_key (fst c)) (constraints pr))
      then Inl PulpError
      else Inr (pr\<lparr>constraints := constraints pr @
             [(Gram_upper_bound_for (grams_cap ps p) (name p),
                \<lparr>expr = [(1, Mixture_var (name p))], sense = LpConstraintLE, rhs = grams_cap ps p\<rparr>),
              (Gram_lower_bound_for 0 (name p),
                \<lparr>expr = [(1, Mixture_var (name p))], sense = LpConstraintGE, rhs = 0\<rparr>)]\<rparr>))"
  using inv by (auto simp: add_bounds_def bound_constraints_tables [OF p] add_constraint_def)

lemma add_bounds_fold:
  assumes sub: "set ys \<subseteq> set ps"
    and inv: "\<forall>x n. Gram_upper_bound_for x n \<in> set (map (\<lambda>c. label_key (fst c)) (constraints pr))
        \<longrightarrow> Gram_lower_bound_for 0 n \<in> set (map (\<lambda>c. label_key (fst c)) (constraints pr))"
  shows "fold_err (add_bounds (grams_available (coef_tables ps))
            (LpVariable_dicts ''Mixture'' (map name ps) (Some 0))) pr ys =
     (if distinct (map (\<lambda>p. pulp_rename (name p)) ys)
         \<and> (\<forall>p\<in>set ys. Gram_lower_bound_for 0 (pulp_rename (name p))
               \<notin> set (map (\<lambda>c. label_key (fst c)) (constraints pr)))
      then Inr (pr\<lparr>constraints := constraints pr @ concat (map (\<lambda>p.
             [(Gram_upper_bound_for (grams_cap ps p) (name p),
                \<lparr>expr = [(1, Mixture_var (name p))], sense = LpConstraintLE, rhs = grams_cap ps p\<rparr>),
              (Gram_lower_bound_for 0 (name p),
                \<lparr>expr = [(1, Mixture_var (name p))], sense = LpConstraintGE, rhs = 0\<rparr>)]) ys)\<rparr>)
      else Inl PulpError)"
  using sub inv
proof (induction ys arbitrary: pr)
  case Nil
  then show ?case by simp
next
  case (Cons p ys)
  have p: "p \<in> set ps" and sub': "set ys \<subseteq> set ps" using Cons.prems(1) by auto
  note step = add_bounds_step [OF p Cons.prems(2)]
  show ?case
  proof (cases "Gram_lower_bound_for 0 (pulp_rename (name p))
           \<in> set (map (\<lambda>c. label_key (fst c)) (constraints pr))")
    case True
    then show ?thesis by (simp add: step)
  next
    case False
    let ?pr' = "pr\<lparr>constraints := constraints pr @
             [(Gram_upper_bound_for (grams_cap ps p) (name p),
                \<lparr>expr = [(1, Mixture_var (name p))], sense = LpConstraintLE, rhs = grams_cap ps p\<rparr>),
              (Gram_lower_bound_for 0 (name p),
                \<lparr>expr = [(1, Mixture_var (name p))], sense = LpConstraintGE, rhs = 0\<rparr>)]\<rparr>"
    have inv': "\<forall>x n. Gram_upper_bound_for x n \<in> set (map (\<lambda>c. label_key (fst c)) (constraints ?pr'))
        \<longrightarrow> Gram_lower_bound_for 0 n \<in> set (map (\<lambda>c. label_key (fst c)) (constraints ?pr'))"
      using Cons.prems(2) by auto
    show ?thesis
      using False
      apply (simp add: step Cons.IH [OF sub' inv'])
      apply (auto simp: image_iff)
      apply metis
      done
  qed
qed

lemma build_model_cases:
  "build_model ps t =
     (if distinct (map (\<lambda>p. pulp_rename (name p)) ps) then Inr (built_model ps t)
      else Inl PulpError)"
proof -
  let ?mv = "LpVariable_dicts ''Mixture'' (map name ps) (Some 0)"
  have f: "map_err (weighted_term (fat_coefs (coef_tables ps)) ?mv) ps
             = Inr (map (\<lambda>p. (fat (nutrition (stored_for ps p)), Mixture_var (name p))) ps)"
    by (rule map_err_total) (rule weighted_term_tables)
  have c: "map_err (weighted_term (carb_coefs (coef_tables ps)) ?mv) ps
             = Inr (map (\<lambda>p. (carbs (nutrition (stored_for ps p)), Mixture_var (name p))) ps)"
    by (rule map_err_total) (rule weighted_term_tables)
  have p: "map_err (weighted_term (protein_coefs (coef_tables ps)) ?mv) ps
             = Inr (map (\<lambda>p. (protein (nutrition (stored_for ps p)), Mixture_var (name p))) ps)"
    by (rule map_err_total) (rule weighted_term_tables)
  show ?thesis
    unfolding build_model_def Let_def f c p
    by (simp add: add_constraint_def add_bounds_fold built_model_def)
qed

lemma build_model_closed:
  "distinct (map (\<lambda>p. pulp_rename (name p)) ps) \<Longrightarrow> build_model ps t = Inr (built_model ps t)"
  by (simp add: build_model_cases)

lemma build_model_Inr:
  assumes "build_model ps t = Inr m"
  shows "distinct (map (\<lambda>p. pulp_rename (name p)) ps)" and "distinct (map name ps)"
    and "m = built_model ps t"
proof -
  show d: "distinct (map (\<lambda>p. pulp_rename (name p)) ps)"
    using assms by (simp add: build_model_cases split: if_splits)
  show "distinct (map name ps)" by (rule rename_distinct_names [OF d])
  show "m = built_model ps t" using assms d by (simp add: build_model_cases)
qed

lemma build_model_sums:
  assumes "build_model ps t = Inr m"
  shows "fat_sum m = map (\<lambda>p. (fat (nutrition (stored_for ps p)), Mixture_var (name p))) ps"
    and "carb_sum m = map (\<lambda>p. (carbs (nutrition (stored_for ps p)), Mixture_var (name p))) ps"
    and "protein_sum m = map (\<lambda>p. (protein (nutrition (stored_for ps p)), Mixture_var (name p))) ps"
    and "mixture_vars m = LpVariable_dicts ''Mixture'' (map name ps) (Some 0)"
  by (simp_all add: build_model_Inr(3) [OF assms] built_model_def)

section \<open>Satisfying assignments of the built model\<close>


lemma in_domain_Mixture_var:
  "in_domain val (Mixture_var n) = (\<exists>x. val (''Mixture_'' @ n) = Some x \<and> 0 \<le> x)"
  by (auto simp: in_domain_def Mixture_var_def split: option.splits)

lemma holds_upper:
  "constraint_holds val \<lparr>expr = [(1, Mixture_var n)], sense = LpConstraintLE, rhs = u\<rparr>
     = (\<exists>x. val (''Mixture_'' @ n) = Some x \<and> x \<le> u)"
  by (auto simp: constraint_holds_def Mixture_var_def split: option.splits)

lemma holds_lower:
  "constraint_holds val \<lparr>expr = [(1, Mixture_var n)], sense = LpConstraintGE, rhs = l\<rparr>
     = (\<exists>x. val (''Mixture_'' @ n) = Some x \<and> l \<le> x)"
  by (auto simp: constraint_holds_def Mixture_var_def split: option.splits)

lemma holds_eq:
  "constraint_holds val \<lparr>expr = e, sense = LpConstraintEQ, rhs = r\<rparr> = (pulp_value val e = Some r)"
  by (auto simp: constraint_holds_def split: option.splits)

lemma satisfies_build_iff:
  assumes "build_model ps t = Inr m"
  shows "satisfies (prob m) val \<longleftrightarrow>
           pulp_value val (fat_sum m) = Some (fat t)
         \<and> pulp_value val (carb_sum m) = Some (carbs t)
         \<and> pulp_value val (protein_sum m) = Some (protein t)
         \<and> (\<forall>p\<in>set ps. \<exists>x. val (''Mixture_'' @ name p) = Some x \<and> 0 \<le> x \<and> x \<le> grams_cap ps p)"
  unfolding build_model_Inr(3) [OF assms] built_model_def
  by (auto simp: satisfies_def list_all_iff holds_eq holds_upper holds_lower in_domain_Mixture_var)

lemma read_varValue_build:
  assumes "build_model ps t = Inr m" and "p \<in> set ps"
  shows "read_varValue (mixture_vars m) val p = Inr (val (''Mixture_'' @ name p))"
  using assms(2)
  by (simp add: build_model_sums(4) [OF assms(1)] read_varValue_def getitem_mixture_vars
      Mixture_var_def)

lemma grams_of_build:
  assumes "build_model ps t = Inr m" and "p \<in> set ps"
  shows "grams_of m val p = (case val (''Mixture_'' @ name p) of None \<Rightarrow> 0 | Some x \<Rightarrow> x)"
  by (simp add: grams_of_def read_varValue_build [OF assms] split: option.splits)


lemma pulp_value_defined:
  "\<forall>p\<in>set ps. val (''Mixture_'' @ name p) \<noteq> None \<Longrightarrow>
   pulp_value val (map (\<lambda>p. (c p, Mixture_var (name p))) ps) =
     Some (\<Sum>p\<leftarrow>ps. (case val (''Mixture_'' @ name p) of None \<Rightarrow> 0 | Some x \<Rightarrow> x) * c p)"
  by (induction ps) (auto simp: Mixture_var_def)

section \<open>The rows of the report\<close>

lemma map_err_Inr_list_all2:
  "map_err f xs = Inr ys \<Longrightarrow> list_all2 (\<lambda>x y. f x = Inr y) xs ys"
  by (induction xs arbitrary: ys) (auto split: sum.splits)

lemma map_err_find:
  "map_err f xs =
     (case find (\<lambda>x. isl (f x)) xs of
        None \<Rightarrow> Inr (map (\<lambda>x. projr (f x)) xs)
      | Some x \<Rightarrow> Inl (projl (f x)))"
  by (induction xs) (auto split: sum.splits option.splits)

lemma make_record_Inr:
  "make_record mvars val p = Inr r \<Longrightarrow>
     Product_col r = name p \<and> read_varValue mvars val p = Inr (Some (Grams r))"
  by (auto simp: make_record_def split: sum.splits option.splits if_splits)

lemma make_record_build:
  assumes b: "build_model ps t = Inr m" and p: "p \<in> set ps"
  shows "make_record (mixture_vars m) val p =
     (if read_varValue (mixture_vars m) val p = Inr None then Inl TypeError
      else if serving_size p = 0 then Inl ZeroDivisionError
      else Inr \<lparr>Product_col = name p, Grams = grams_of m val p,
             Servings = grams_of m val p / serving_size p,
             Fat_g = fat (nutrition p) * grams_of m val p,
             Carbs_g = carbs (nutrition p) * grams_of m val p,
             Protein_g = protein (nutrition p) * grams_of m val p,
             Calories = 9 * (fat (nutrition p) * grams_of m val p)
               + 4 * (carbs (nutrition p) * grams_of m val p)
               + 4 * (protein (nutrition p) * grams_of m val p)\<rparr>)"
  by (auto simp: make_record_def grams_of_def read_varValue_build [OF b p] scale_def calories_def
      split: option.splits)

lemma summary_nutrition_build:
  assumes b: "build_model ps t = Inr m"
    and v: "\<forall>p\<in>set ps. read_varValue (mixture_vars m) val p \<noteq> Inr None"
  shows "summary_nutrition m val =
     Inr \<lparr>fat = (\<Sum>p\<leftarrow>ps. grams_of m val p * fat (nutrition p)),
          carbs = (\<Sum>p\<leftarrow>ps. grams_of m val p * carbs (nutrition p)),
          protein = (\<Sum>p\<leftarrow>ps. grams_of m val p * protein (nutrition p))\<rparr>"
proof -
  have d: "\<forall>p\<in>set ps. val (''Mixture_'' @ name p) \<noteq> None"
    using v by (auto simp: read_varValue_build [OF b])
  have st: "\<And>p. p \<in> set ps \<Longrightarrow> stored_for ps p = p"
    by (rule stored_for_distinct [OF build_model_Inr(2) [OF b]])
  have eq: "\<And>c. map (\<lambda>p. (case val (''Mixture_'' @ name p) of None \<Rightarrow> 0 | Some x \<Rightarrow> x)
                * c (nutrition (stored_for ps p))) ps
      = map (\<lambda>p. grams_of m val p * c (nutrition p)) ps"
    by (rule map_cong [OF refl]) (simp add: grams_of_build [OF b] st)
  have "\<And>c. pulp_value val (map (\<lambda>p. (c (nutrition (stored_for ps p)), Mixture_var (name p))) ps)
      = Some (\<Sum>p\<leftarrow>ps. grams_of m val p * c (nutrition p))"
    unfolding pulp_value_defined [OF d] eq ..
  then show ?thesis
    by (simp add: summary_nutrition_def build_model_sums [OF b])
qed

lemma round_record_cols:
  "Product_col (round_record r) = Product_col r" "Grams (round_record r) = round2 (Grams r)"
  by (simp_all add: round_record_def)

lemma round2_tiny: "0 < g \<Longrightarrow> g < 5 / 1000 \<Longrightarrow> round2 g = 0"
proof -
  assume g: "0 < g" "g < 5 / 1000"
  have "\<lfloor>g * 100\<rfloor> = 0" using g by (simp add: floor_eq_iff)
  then show ?thesis using g by (simp add: round2_def rint_def)
qed

lemma filtered_rows:
  "list_all2 (\<lambda>p r. Product_col r = name p \<and> Grams r = g p) ps rs \<Longrightarrow>
   map (\<lambda>r. (Product_col r, Grams r)) (map round_record (filter (\<lambda>x. 0 < Grams x) rs))
     = map (\<lambda>p. (name p, round2 (g p))) (filter (\<lambda>p. 0 < g p) ps)"
  by (induction rule: list_all2_induct) (simp_all add: round_record_cols)

lemma interpret_rows:
  assumes b: "build_model ps t = Inr m" and i: "interpret_result ps t m res = Inr rep"
  shows "map (\<lambda>r. (Product_col r, Grams r)) (df_filtered rep)
         = map (\<lambda>p. (name p, round2 (grams_of m (varValue res) p)))
             (filter (\<lambda>p. 0 < grams_of m (varValue res) p) ps)"
proof -
  obtain rs where rs: "map_err (make_record (mixture_vars m) (varValue res)) ps = Inr rs"
      and rep: "df_filtered rep = map round_record (filter (\<lambda>x. 0 < Grams x) rs)"
    using i by (auto simp: interpret_result_def split: sum.splits)
  have "list_all2 (\<lambda>p r. make_record (mixture_vars m) (varValue res) p = Inr r) ps rs"
    by (rule map_err_Inr_list_all2 [OF rs])
  then have "list_all2 (\<lambda>p r. Product_col r = name p \<and> Grams r = grams_of m (varValue res) p) ps rs"
    by (rule list_all2_mono) (auto simp: grams_of_def dest!: make_record_Inr)
  from filtered_rows [OF this] rep show ?thesis by simp
qed

section \<open>Widening the availability of one product\<close>

lemma widened_refl: "widened q q"
  by (simp add: widened_def)

lemma last_named_snoc:
  "last_named (xs @ [x]) n = (if name x = n then Some x else last_named xs n)"
  by (simp add: last_named_def)

lemma last_named_widened:
  "i < length ps \<Longrightarrow> widened (ps ! i) y \<Longrightarrow>
   rel_option widened (last_named ps n) (last_named (ps[i := y]) n)"
proof (induction ps arbitrary: i rule: rev_induct)
  case Nil
  then show ?case by simp
next
  case (snoc x xs)
  show ?case
  proof (cases "i < length xs")
    case True
    have w: "widened (xs ! i) y" using snoc.prems(2) True by (simp add: nth_append)
    have "rel_option widened (last_named xs n) (last_named (xs[i := y]) n)"
      by (rule snoc.IH [OF True w])
    then show ?thesis using True
      by (simp add: list_update_append1 last_named_snoc widened_refl)
  next
    case False
    then have i: "i = length xs" using snoc.prems(1) by simp
    have w: "widened x y" using snoc.prems(2) i by simp
    then have n: "name y = name x" by (simp add: widened_def)
    show ?thesis using w n
      by (simp add: i last_named_snoc option.rel_refl [of widened, OF widened_refl])
  qed
qed

lemma stored_for_widened:
  assumes "i < length ps" and "widened (ps ! i) y" and "j < length ps"
  shows "widened (stored_for ps (ps ! j)) (stored_for (ps[i := y]) (ps[i := y] ! j))"
proof -
  have nm: "name (ps[i := y] ! j) = name (ps ! j)"
    using assms by (cases "j = i") (simp_all add: widened_def)
  obtain q where q: "last_named ps (name (ps ! j)) = Some q"
    using last_named_member [of "ps ! j" ps] assms(3) by auto
  have "rel_option widened (last_named ps (name (ps ! j))) (last_named (ps[i := y]) (name (ps ! j)))"
    by (rule last_named_widened [OF assms(1,2)])
  with q obtain q' where q': "last_named (ps[i := y]) (name (ps ! j)) = Some q'" "widened q q'"
    by (auto simp: option_rel_Some1)
  show ?thesis by (simp add: stored_for_def nm q q')
qed

section \<open>Evaluation on concrete inputs\<close>

lemmas build_eval = build_model_cases built_model_def pulp_rename_def stored_for_def
  last_named_def grams_cap_def LpVariable_dicts_def setitem_def Mixture_var_def

lemmas run_eval = optimize_def interpret_result_def make_record_def read_varValue_def getitem_def
  summary_nutrition_def summary_rows_def round_record_def round2_def rint_def scale_def calories_def

lemmas sat_eval = satisfies_def constraint_holds_def in_domain_def

section \<open>Properties of the model builder\<close>

text \<open>
  C2, as the code has it. The library keeps the constraints under their renamed labels
  and refuses a label it already holds. For every product list whose names stay pairwise
  distinct under this renaming, and every target vector, the builder returns a model
  with exactly one continuous variable per product (lower bound 0, no upper bound of its
  own), the three equality constraints of the fat, carbohydrate and protein sums against
  the target and no other equality constraint, and for every product, in input order,
  the two bound constraints variable \<open>\<le>\<close> serving size times servings available and
  variable \<open>\<ge>\<close> 0. For every other product list it raises \<^verbatim>\<open>PulpError\<close> and builds no
  model.
\<close>

theorem build_model_shape:
  "if distinct (map (\<lambda>p. pulp_rename (name p)) products)
   then \<exists>m. build_model products target_macros = Inr m
    \<and> mixture_vars m =
        map (\<lambda>p. (name p, \<lparr>var_name = ''Mixture_'' @ name p, lowBound = Some 0,
                            upBound = None, cat = LpContinuous\<rparr>)) products
    \<and> constraints (prob m) =
        [(Fat_target,
           \<lparr>expr = map (\<lambda>p. (fat (nutrition p), Mixture_var (name p))) products,
            sense = LpConstraintEQ, rhs = fat target_macros\<rparr>),
         (Carbs_target,
           \<lparr>expr = map (\<lambda>p. (carbs (nutrition p), Mixture_var (name p))) products,
            sense = LpConstraintEQ, rhs = carbs target_macros\<rparr>),
         (Protein_target,
           \<lparr>expr = map (\<lambda>p. (protein (nutrition p), Mixture_var (name p))) products,
            sense = LpConstraintEQ, rhs = protein target_macros\<rparr>)]
        @ concat (map (\<lambda>p.
            [(Gram_upper_bound_for (serving_size p * servings_available p) (name p),
               \<lparr>expr = [(1, Mixture_var (name p))], sense = LpConstraintLE,
                rhs = serving_size p * servings_available p\<rparr>),
             (Gram_lower_bound_for 0 (name p),
               \<lparr>expr = [(1, Mixture_var (name p))], sense = LpConstraintGE, rhs = 0\<rparr>)]) products)
    \<and> length (filter (\<lambda>(l, c). sense c = LpConstraintEQ) (constraints (prob m))) = 3
   else build_model products target_macros = Inl PulpError"
proof (cases "distinct (map (\<lambda>p. pulp_rename (name p)) products)")
  case False
  then show ?thesis by (simp add: build_model_cases)
next
  case True
  have d: "distinct (map name products)" by (rule rename_distinct_names [OF True])
  have st: "\<And>p. p \<in> set products \<Longrightarrow> stored_for products p = p"
    by (rule stored_for_distinct [OF d])
  have cap: "\<And>p. p \<in> set products \<Longrightarrow>
      grams_cap products p = serving_size p * servings_available p"
    by (simp add: grams_cap_def st)
  have mv: "LpVariable_dicts ''Mixture'' (map name products) (Some 0) =
      map (\<lambda>p. (name p, \<lparr>var_name = ''Mixture_'' @ name p, lowBound = Some 0,
                          upBound = None, cat = LpContinuous\<rparr>)) products"
    by (simp add: mixture_vars_distinct [OF d] Mixture_var_def comp_def)
  have no_eq: "\<And>f. filter (\<lambda>(l, c). sense c = LpConstraintEQ)
      (concat (map (\<lambda>p.
            [(Gram_upper_bound_for (f p) (name p),
               \<lparr>expr = [(1, Mixture_var (name p))], sense = LpConstraintLE, rhs = f p\<rparr>),
             (Gram_lower_bound_for 0 (name p),
               \<lparr>expr = [(1, Mixture_var (name p))], sense = LpConstraintGE, rhs = 0\<rparr>)]) products)) = []"
    by (induction products) simp_all
  show ?thesis
    using True
    by (simp add: build_model_closed built_model_def mv st cap no_eq cong: map_cong)
qed

theorem build_model_shape_witness:
  "distinct (map (\<lambda>p. pulp_rename (name p)) [oats, rice])
   \<and> (\<exists>m. build_model [oats, rice] scenario_A = Inr m
        \<and> map fst (mixture_vars m) = [''oats'', ''rice'']
        \<and> map (\<lambda>(l, c). (l, sense c, rhs c)) (constraints (prob m)) =
            [(Fat_target, LpConstraintEQ, 5), (Carbs_target, LpConstraintEQ, 10),
             (Protein_target, LpConstraintEQ, 5 / 2),
             (Gram_upper_bound_for 500 ''oats'', LpConstraintLE, 500),
             (Gram_lower_bound_for 0 ''oats'', LpConstraintGE, 0),
             (Gram_upper_bound_for 0 ''rice'', LpConstraintLE, 0),
             (Gram_lower_bound_for 0 ''rice'', LpConstraintGE, 0)])"
proof -
  have d: "distinct (map (\<lambda>p. pulp_rename (name p)) [oats, rice])"
    by (simp add: pulp_rename_def)
  from build_model_shape [of "[oats, rice]" scenario_A] d obtain m where
    "build_model [oats, rice] scenario_A = Inr m"
    "mixture_vars m = map (\<lambda>p. (name p, \<lparr>var_name = ''Mixture_'' @ name p, lowBound = Some 0,
                            upBound = None, cat = LpContinuous\<rparr>)) [oats, rice]"
    "constraints (prob m) =
        [(Fat_target,
           \<lparr>expr = map (\<lambda>p. (fat (nutrition p), Mixture_var (name p))) [oats, rice],
            sense = LpConstraintEQ, rhs = fat scenario_A\<rparr>),
         (Carbs_target,
           \<lparr>expr = map (\<lambda>p. (carbs (nutrition p), Mixture_var (name p))) [oats, rice],
            sense = LpConstraintEQ, rhs = carbs scenario_A\<rparr>),
         (Protein_target,
           \<lparr>expr = map (\<lambda>p. (protein (nutrition p), Mixture_var (name p))) [oats, rice],
            sense = LpConstraintEQ, rhs = protein scenario_A\<rparr>)]
        @ concat (map (\<lambda>p.
            [(Gram_upper_bound_for (serving_size p * servings_available p) (name p),
               \<lparr>expr = [(1, Mixture_var (name p))], sense = LpConstraintLE,
                rhs = serving_size p * servings_available p\<rparr>),
             (Gram_lower_bound_for 0 (name p),
               \<lparr>expr = [(1, Mixture_var (name p))], sense = LpConstraintGE, rhs = 0\<rparr>)]) [oats, rice])"
    by (auto simp only: if_True)
  with d show ?thesis by simp
qed

text \<open>
  The claim C2 as stated, for every product list, fails for the two distinct names
  \<^verbatim>\<open>'a b'\<close> and \<^verbatim>\<open>'a_b'\<close>: the labels of their lower bounds are renamed to the same
  string, and the builder raises \<^verbatim>\<open>PulpError\<close> at line 62.
\<close>

theorem build_model_renamed_names_counterexample:
  "distinct (map name
         [\<lparr>name = ''a b'', serving_size = 1, servings_available = 1,
            nutrition = \<lparr>fat = 1, carbs = 1, protein = 1\<rparr>\<rparr>,
          \<lparr>name = ''a_b'', serving_size = 1, servings_available = 5,
            nutrition = \<lparr>fat = 1, carbs = 1, protein = 1\<rparr>\<rparr>])
   \<and> build_model
         [\<lparr>name = ''a b'', serving_size = 1, servings_available = 1,
            nutrition = \<lparr>fat = 1, carbs = 1, protein = 1\<rparr>\<rparr>,
          \<lparr>name = ''a_b'', serving_size = 1, servings_available = 5,
            nutrition = \<lparr>fat = 1, carbs = 1, protein = 1\<rparr>\<rparr>]
         \<lparr>fat = 6, carbs = 6, protein = 6\<rparr> = Inl PulpError"
  by (simp add: build_model_cases pulp_rename_def)



text \<open>
  C5, as the code has it. Whenever the model is built, a product with no servings
  available still has its variable in the model, with an upper-bound constraint of 0
  grams, and every assignment satisfying the constraints gives it 0 grams. Its record is
  a zero row, which does not pass the positivity filter: the product is absent from the
  printed per-product table.
\<close>

theorem zero_availability_forces_zero:
  assumes b: "build_model products target_macros = Inr m"
    and p: "p \<in> set products"
    and z: "servings_available p = 0"
  shows "getitem (mixture_vars m) (name p) = Inr (Mixture_var (name p))
     \<and> (Gram_upper_bound_for 0 (name p),
          \<lparr>expr = [(1, Mixture_var (name p))], sense = LpConstraintLE, rhs = 0\<rparr>)
         \<in> set (constraints (prob m))
     \<and> (\<forall>val. satisfies (prob m) val \<longrightarrow> read_varValue (mixture_vars m) val p = Inr (Some 0))
     \<and> (\<forall>res rep. satisfies (prob m) (varValue res)
            \<and> interpret_result products target_macros m res = Inr rep
          \<longrightarrow> name p \<notin> Product_col ` set (df_filtered rep))"
proof -
  have d: "distinct (map name products)" by (rule build_model_Inr(2) [OF b])
  have cap: "grams_cap products p = 0"
    by (simp add: grams_cap_def stored_for_distinct [OF d p] z)
  have mv: "getitem (mixture_vars m) (name p) = Inr (Mixture_var (name p))"
    using p by (simp add: build_model_sums(4) [OF b] getitem_mixture_vars)
  have ub: "(Gram_upper_bound_for 0 (name p),
          \<lparr>expr = [(1, Mixture_var (name p))], sense = LpConstraintLE, rhs = 0\<rparr>)
         \<in> set (constraints (prob m))"
    using p cap unfolding build_model_Inr(3) [OF b] built_model_def by force
  have zero: "val (''Mixture_'' @ name p) = Some 0" if "satisfies (prob m) val" for val
  proof -
    from that satisfies_build_iff [OF b, of val]
    have "\<forall>q\<in>set products. \<exists>x. val (''Mixture_'' @ name q) = Some x \<and> 0 \<le> x
        \<and> x \<le> grams_cap products q"
      by simp
    with p obtain x where x: "val (''Mixture_'' @ name p) = Some x" "0 \<le> x" "x \<le> grams_cap products p"
      by blast
    have "x = 0" using x(2,3) cap by linarith
    with x(1) show ?thesis by simp
  qed
  have rd: "read_varValue (mixture_vars m) val p = Inr (Some 0)" if "satisfies (prob m) val" for val
    using zero [OF that] by (simp add: read_varValue_build [OF b p])
  have out: "name p \<notin> Product_col ` set (df_filtered rep)"
    if s: "satisfies (prob m) (varValue res)"
      and i: "interpret_result products target_macros m res = Inr rep" for res rep
  proof
    assume "name p \<in> Product_col ` set (df_filtered rep)"
    then have "name p \<in> fst ` set (map (\<lambda>r. (Product_col r, Grams r)) (df_filtered rep))"
      by force
    then have "name p \<in> name ` set (filter (\<lambda>q. 0 < grams_of m (varValue res) q) products)"
      unfolding interpret_rows [OF b i] by force
    then obtain q where q: "q \<in> set products" "0 < grams_of m (varValue res) q" "name q = name p"
      by auto
    have "inj_on name (set products)" using d by (simp add: distinct_map)
    then have "q = p" using q(1,3) p by (auto dest: inj_onD)
    then show False using q(2) rd [OF s] by (simp add: grams_of_def)
  qed
  from mv ub rd out show ?thesis by blast
qed

theorem zero_availability_forces_zero_witness:
  "rice \<in> set [oats, rice] \<and> servings_available rice = 0
   \<and> (\<exists>m. build_model [oats, rice] scenario_A = Inr m
        \<and> (Gram_upper_bound_for 0 ''rice'',
             \<lparr>expr = [(1, Mixture_var ''rice'')], sense = LpConstraintLE, rhs = 0\<rparr>)
            \<in> set (constraints (prob m))
        \<and> satisfies (prob m) (\<lambda>n. if n = ''Mixture_oats'' then Some 50 else Some 0)
        \<and> read_varValue (mixture_vars m) (\<lambda>n. if n = ''Mixture_oats'' then Some 50 else Some 0) rice
            = Inr (Some 0))"
proof -
  let ?val = "\<lambda>n. if n = ''Mixture_oats'' then Some (50::real) else Some 0"
  have p: "rice \<in> set [oats, rice]" by simp
  have z: "servings_available rice = 0" by simp
  obtain m where b: "build_model [oats, rice] scenario_A = Inr m"
    by (simp add: build_model_cases pulp_rename_def)
  have s: "satisfies (prob m) ?val"
    using b by (auto simp: build_eval sat_eval)
  from zero_availability_forces_zero [OF b p z] s
  have "(Gram_upper_bound_for 0 (name rice),
             \<lparr>expr = [(1, Mixture_var (name rice))], sense = LpConstraintLE, rhs = 0\<rparr>)
            \<in> set (constraints (prob m))"
    and "read_varValue (mixture_vars m) ?val rice = Inr (Some 0)"
    by blast+
  with b s show ?thesis by (auto intro!: exI [of _ m])
qed

text \<open>
  The claim C5 as stated fails in its report clause. In the run below the solver returns
  an assignment satisfying the model, rice has no servings available, and the printed
  per-product table holds the row of oats only: rice does not appear as a zero row.
\<close>

theorem zero_availability_row_dropped_counterexample:
  "servings_available rice = 0
   \<and> (\<exists>m. build_model [oats, rice] scenario_A = Inr m
        \<and> satisfies (prob m) (\<lambda>n. if n = ''Mixture_oats'' then Some 50 else Some 0))
   \<and> optimize
       (\<lambda>pr. \<lparr>status = LpStatusOptimal,
               varValue = (\<lambda>n. if n = ''Mixture_oats'' then Some 50 else Some 0)\<rparr>)
       [oats, rice] scenario_A
     = Inr \<lparr>status_line = LpStatusOptimal,
            df_filtered = [\<lparr>Product_col = ''oats'', Grams = 50, Servings = 1, Fat_g = 5,
                            Carbs_g = 10, Protein_g = 5 / 2, Calories = 95\<rparr>],
            df_summary = [\<lparr>Macronutrient = ''Fat'', Grams_achieved = 5, Targeted = 5\<rparr>,
                          \<lparr>Macronutrient = ''Carbs'', Grams_achieved = 10, Targeted = 10\<rparr>,
                          \<lparr>Macronutrient = ''Protein'', Grams_achieved = 5 / 2, Targeted = 5 / 2\<rparr>,
                          \<lparr>Macronutrient = ''Total calories'', Grams_achieved = 95,
                            Targeted = 95\<rparr>]\<rparr>"
  by (simp add: build_eval sat_eval run_eval)

text \<open>
  C7, as the code has it. When an assignment satisfies the built model and the servings
  available of one product with a serving size that is not negative are increased, all
  else fixed, the same assignment satisfies the new model: the model stays feasible.
\<close>

theorem widening_keeps_feasible:
  assumes b: "build_model products target_macros = Inr m"
    and s: "satisfies (prob m) val"
    and i: "i < length products"
    and pos: "0 \<le> serving_size (products ! i)"
    and more: "servings_available (products ! i) \<le> a"
  shows "\<exists>m'. build_model (products[i := (products ! i)\<lparr>servings_available := a\<rparr>]) target_macros = Inr m'
           \<and> satisfies (prob m') val"
proof -
  let ?y = "(products ! i)\<lparr>servings_available := a\<rparr>"
  let ?ps' = "products[i := ?y]"
  have w: "widened (products ! i) ?y"
    using pos more by (simp add: widened_def mult_left_mono)
  have st: "\<And>j. j < length products \<Longrightarrow>
      widened (stored_for products (products ! j)) (stored_for ?ps' (?ps' ! j))"
    by (rule stored_for_widened [OF i w])
  have nm: "\<And>j. j < length products \<Longrightarrow> name (?ps' ! j) = name (products ! j)"
    using i by (case_tac "j = i") simp_all
  have "map (\<lambda>p. pulp_rename (name p)) ?ps' = map (\<lambda>p. pulp_rename (name p)) products"
    using nm by (auto intro!: nth_equalityI)
  then have "distinct (map (\<lambda>p. pulp_rename (name p)) ?ps')"
    using build_model_Inr(1) [OF b] by simp
  then obtain m' where b': "build_model ?ps' target_macros = Inr m'"
    by (simp add: build_model_closed)
  have fs: "fat_sum m' = fat_sum m"
    unfolding build_model_sums [OF b] build_model_sums [OF b'] using st nm
    by (auto simp: widened_def intro!: nth_equalityI)
  have cs: "carb_sum m' = carb_sum m"
    unfolding build_model_sums [OF b] build_model_sums [OF b'] using st nm
    by (auto simp: widened_def intro!: nth_equalityI)
  have prs: "protein_sum m' = protein_sum m"
    unfolding build_model_sums [OF b] build_model_sums [OF b'] using st nm
    by (auto simp: widened_def intro!: nth_equalityI)
  have old: "pulp_value val (fat_sum m) = Some (fat target_macros)"
      "pulp_value val (carb_sum m) = Some (carbs target_macros)"
      "pulp_value val (protein_sum m) = Some (protein target_macros)"
      "\<forall>p\<in>set products. \<exists>x. val (''Mixture_'' @ name p) = Some x \<and> 0 \<le> x
          \<and> x \<le> grams_cap products p"
    using s satisfies_build_iff [OF b, of val] by simp_all
  have bounds: "\<forall>p\<in>set ?ps'. \<exists>x. val (''Mixture_'' @ name p) = Some x \<and> 0 \<le> x
          \<and> x \<le> grams_cap ?ps' p"
  proof
    fix p assume "p \<in> set ?ps'"
    then obtain j where j: "j < length products" "p = ?ps' ! j"
      by (auto simp: in_set_conv_nth)
    have "products ! j \<in> set products" using j(1) by simp
    with old(4) obtain x where x: "val (''Mixture_'' @ name (products ! j)) = Some x"
        "0 \<le> x" "x \<le> grams_cap products (products ! j)"
      by blast
    have "grams_cap products (products ! j) \<le> grams_cap ?ps' (?ps' ! j)"
      using st [OF j(1)] by (simp add: grams_cap_def widened_def)
    with x show "\<exists>x. val (''Mixture_'' @ name p) = Some x \<and> 0 \<le> x \<and> x \<le> grams_cap ?ps' p"
      using nm [OF j(1)] j(2) by auto
  qed
  have "satisfies (prob m') val"
    using satisfies_build_iff [OF b', of val] old(1-3) bounds by (simp add: fs cs prs)
  with b' show ?thesis by blast
qed

theorem widening_keeps_feasible_witness:
  "(\<exists>m. build_model [oats] scenario_A = Inr m \<and> satisfies (prob m) (\<lambda>n. Some 50))
   \<and> (0::nat) < length [oats] \<and> 0 \<le> serving_size ([oats] ! 0)
   \<and> servings_available ([oats] ! 0) \<le> 20
   \<and> (\<exists>m'. build_model ([oats][0 := ([oats] ! 0)\<lparr>servings_available := 20\<rparr>]) scenario_A = Inr m'
         \<and> satisfies (prob m') (\<lambda>n. Some 50))"
proof -
  obtain m where b: "build_model [oats] scenario_A = Inr m"
    by (simp add: build_model_cases pulp_rename_def)
  have s: "satisfies (prob m) (\<lambda>n. Some 50)"
    using b by (auto simp: build_eval sat_eval)
  have i: "(0::nat) < length [oats]" by simp
  have pos: "0 \<le> serving_size ([oats] ! 0)" by simp
  have more: "servings_available ([oats] ! 0) \<le> 20" by simp
  from widening_keeps_feasible [OF b s i pos more] b s i pos more show ?thesis
    by blast
qed

text \<open>
  The claim C7 as stated, for every product list, fails for a product with a negative
  serving size, which the constructor accepts: more servings lower its upper bound below
  zero, and a feasible model becomes infeasible.
\<close>

theorem widening_negative_serving_size_counterexample:
  "\<exists>p p' m m'.
       Product_init ''x'' (-1) 0 [(''fat'', 1), (''carbs'', 2), (''protein'', 3)] = Inr p
     \<and> Product_init ''x'' (-1) 1 [(''fat'', 1), (''carbs'', 2), (''protein'', 3)] = Inr p'
     \<and> build_model [p] \<lparr>fat = 0, carbs = 0, protein = 0\<rparr> = Inr m
     \<and> build_model [p'] \<lparr>fat = 0, carbs = 0, protein = 0\<rparr> = Inr m'
     \<and> satisfies (prob m) (\<lambda>n. Some 0)
     \<and> (\<forall>val. \<not> satisfies (prob m') val)"
  by (auto simp: Product_init_def NutritionVector_kwargs_def scale_def build_eval sat_eval
      split: option.splits)

section \<open>Properties of the interpretation of the result\<close>

text \<open>
  C1, as the code has it. The status of the solve is printed and never tested. For every
  built model and whatever status the solver returns, the run reads the value of each
  product's variable in input order. It aborts at the first product whose value is
  undefined (\<^verbatim>\<open>TypeError\<close>) or whose serving size is zero (\<^verbatim>\<open>ZeroDivisionError\<close>);
  when there is none it prints the status, the records of the products computed from the
  values read, filtered and rounded, and the summary of the achieved sums against the
  targets.
\<close>

theorem interpretation_whatever_status:
  assumes b: "build_model products target_macros = Inr m"
  shows "optimize solve products target_macros =
     (let res = solve (prob m); g = grams_of m (varValue res) in
      case find (\<lambda>p. read_varValue (mixture_vars m) (varValue res) p = Inr None
                    \<or> serving_size p = 0) products of
        Some p \<Rightarrow>
          Inl (if read_varValue (mixture_vars m) (varValue res) p = Inr None then TypeError
               else ZeroDivisionError)
      | None \<Rightarrow>
          Inr \<lparr>status_line = status res,
               df_filtered = map round_record (filter (\<lambda>x. 0 < Grams x)
                 (map (\<lambda>p. \<lparr>Product_col = name p, Grams = g p,
                         Servings = g p / serving_size p,
                         Fat_g = fat (nutrition p) * g p,
                         Carbs_g = carbs (nutrition p) * g p,
                         Protein_g = protein (nutrition p) * g p,
                         Calories = 9 * (fat (nutrition p) * g p)
                           + 4 * (carbs (nutrition p) * g p)
                           + 4 * (protein (nutrition p) * g p)\<rparr>) products)),
               df_summary = summary_rows
                 \<lparr>fat = (\<Sum>p\<leftarrow>products. g p * fat (nutrition p)),
                  carbs = (\<Sum>p\<leftarrow>products. g p * carbs (nutrition p)),
                  protein = (\<Sum>p\<leftarrow>products. g p * protein (nutrition p))\<rparr>
                 target_macros\<rparr>)"
proof -
  let ?val = "varValue (solve (prob m))"
  let ?bad = "\<lambda>p. read_varValue (mixture_vars m) ?val p = Inr None \<or> serving_size p = 0"
  have f: "find (\<lambda>p. isl (make_record (mixture_vars m) ?val p)) products = find ?bad products"
    by (rule find_cong [OF refl]) (auto simp: make_record_build [OF b])
  show ?thesis
  proof (cases "find ?bad products")
    case None
    then have good: "\<forall>p\<in>set products. \<not> ?bad p"
      by (simp add: find_None_iff)
    then have v: "\<forall>p\<in>set products. read_varValue (mixture_vars m) ?val p \<noteq> Inr None"
      by blast
    have recs: "map (\<lambda>p. projr (make_record (mixture_vars m) ?val p)) products
        = map (\<lambda>p. \<lparr>Product_col = name p, Grams = grams_of m ?val p,
                         Servings = grams_of m ?val p / serving_size p,
                         Fat_g = fat (nutrition p) * grams_of m ?val p,
                         Carbs_g = carbs (nutrition p) * grams_of m ?val p,
                         Protein_g = protein (nutrition p) * grams_of m ?val p,
                         Calories = 9 * (fat (nutrition p) * grams_of m ?val p)
                           + 4 * (carbs (nutrition p) * grams_of m ?val p)
                           + 4 * (protein (nutrition p) * grams_of m ?val p)\<rparr>) products"
      by (rule map_cong [OF refl]) (use good in \<open>simp add: make_record_build [OF b]\<close>)
    show ?thesis
      using None
      by (simp add: optimize_def b interpret_result_def map_err_find f recs
          summary_nutrition_build [OF b v] Let_def)
  next
    case (Some p)
    then have p: "p \<in> set products" "?bad p"
      using find_SomeD [OF Some] by simp_all
    show ?thesis
      using Some p(2)
      by (auto simp: optimize_def b interpret_result_def map_err_find f Let_def
          make_record_build [OF b p(1)])
  qed
qed

theorem interpretation_whatever_status_witness:
  "(\<exists>m. build_model [oats] scenario_A = Inr m)
   \<and> optimize (\<lambda>pr. \<lparr>status = LpStatusNotSolved, varValue = (\<lambda>n. Some 50)\<rparr>) [oats] scenario_A
     = Inr \<lparr>status_line = LpStatusNotSolved,
            df_filtered = [\<lparr>Product_col = ''oats'', Grams = 50, Servings = 1, Fat_g = 5,
                            Carbs_g = 10, Protein_g = 5 / 2, Calories = 95\<rparr>],
            df_summary = [\<lparr>Macronutrient = ''Fat'', Grams_achieved = 5, Targeted = 5\<rparr>,
                          \<lparr>Macronutrient = ''Carbs'', Grams_achieved = 10, Targeted = 10\<rparr>,
                          \<lparr>Macronutrient = ''Protein'', Grams_achieved = 5 / 2, Targeted = 5 / 2\<rparr>,
                          \<lparr>Macronutrient = ''Total calories'', Grams_achieved = 95,
                            Targeted = 95\<rparr>]\<rparr>
   \<and> optimize (\<lambda>pr. \<lparr>status = LpStatusUndefined, varValue = (\<lambda>n. None)\<rparr>) [oats] scenario_A
     = Inl TypeError"
proof -
  obtain m where b: "build_model [oats] scenario_A = Inr m"
    by (simp add: build_model_cases pulp_rename_def)
  have p: "oats \<in> set [oats]" by simp
  note r = read_varValue_build [OF b p] grams_of_build [OF b p]
  have one: "optimize (\<lambda>pr. \<lparr>status = LpStatusNotSolved, varValue = (\<lambda>n. Some 50)\<rparr>) [oats] scenario_A
     = Inr \<lparr>status_line = LpStatusNotSolved,
            df_filtered = [\<lparr>Product_col = ''oats'', Grams = 50, Servings = 1, Fat_g = 5,
                            Carbs_g = 10, Protein_g = 5 / 2, Calories = 95\<rparr>],
            df_summary = [\<lparr>Macronutrient = ''Fat'', Grams_achieved = 5, Targeted = 5\<rparr>,
                          \<lparr>Macronutrient = ''Carbs'', Grams_achieved = 10, Targeted = 10\<rparr>,
                          \<lparr>Macronutrient = ''Protein'', Grams_achieved = 5 / 2, Targeted = 5 / 2\<rparr>,
                          \<lparr>Macronutrient = ''Total calories'', Grams_achieved = 95,
                            Targeted = 95\<rparr>]\<rparr>"
    unfolding interpretation_whatever_status [OF b]
    by (simp add: r Let_def round_record_def round2_def rint_def summary_rows_def calories_def)
  have two: "optimize (\<lambda>pr. \<lparr>status = LpStatusUndefined, varValue = (\<lambda>n. None)\<rparr>) [oats] scenario_A
     = Inl TypeError"
    unfolding interpretation_whatever_status [OF b]
    by (simp add: r Let_def)
  from b one two show ?thesis by blast
qed

text \<open>
  The claim C1 as stated fails: with the status Infeasible (scenario B of the spec) and
  values left in the variables, the run prints a per-product row and the summary.
\<close>

theorem status_counterexample:
  "optimize (\<lambda>pr. \<lparr>status = LpStatusInfeasible, varValue = (\<lambda>n. Some 500)\<rparr>) [oats] scenario_B
     = Inr \<lparr>status_line = LpStatusInfeasible,
            df_filtered = [\<lparr>Product_col = ''oats'', Grams = 500, Servings = 10, Fat_g = 50,
                            Carbs_g = 100, Protein_g = 25, Calories = 950\<rparr>],
            df_summary = [\<lparr>Macronutrient = ''Fat'', Grams_achieved = 50, Targeted = 100\<rparr>,
                          \<lparr>Macronutrient = ''Carbs'', Grams_achieved = 100, Targeted = 10\<rparr>,
                          \<lparr>Macronutrient = ''Protein'', Grams_achieved = 25, Targeted = 5 / 2\<rparr>,
                          \<lparr>Macronutrient = ''Total calories'', Grams_achieved = 950,
                            Targeted = 950\<rparr>]\<rparr>"
  by (simp add: build_eval run_eval)

text \<open>
  C10. In a run that completes, the rows of the per-product table are the products
  whose exact assigned grams are positive, in input order, each showing the grams rounded
  to two decimals; the filter sees the unrounded grams, so a product with grams strictly
  between 0 and 0.005 is kept and shows 0, and a product with grams at most 0 is dropped.
\<close>

theorem report_rows_filtered_then_rounded:
  assumes "optimize solve products target_macros = Inr rep"
  shows "\<exists>m. build_model products target_macros = Inr m
     \<and> map (\<lambda>r. (Product_col r, Grams r)) (df_filtered rep)
         = map (\<lambda>p. (name p, round2 (grams_of m (varValue (solve (prob m))) p)))
             (filter (\<lambda>p. 0 < grams_of m (varValue (solve (prob m))) p) products)
     \<and> (\<forall>g. 0 < g \<and> g < 5 / 1000 \<longrightarrow> round2 g = 0)"
proof -
  from assms obtain m where b: "build_model products target_macros = Inr m"
    by (auto simp: optimize_def split: sum.splits)
  from assms b have i: "interpret_result products target_macros m (solve (prob m)) = Inr rep"
    by (simp add: optimize_def)
  from interpret_rows [OF b i] b show ?thesis
    by (auto simp: round2_tiny)
qed

theorem report_rows_filtered_then_rounded_witness:
  "\<exists>rep. optimize
       (\<lambda>pr. \<lparr>status = LpStatusOptimal,
               varValue = (\<lambda>n. if n = ''Mixture_a'' then Some (1 / 250)
                                 else if n = ''Mixture_b'' then Some 0 else Some 3)\<rparr>)
       [\<lparr>name = ''a'', serving_size = 1, servings_available = 10,
          nutrition = \<lparr>fat = 1, carbs = 0, protein = 0\<rparr>\<rparr>,
        \<lparr>name = ''b'', serving_size = 1, servings_available = 10,
          nutrition = \<lparr>fat = 0, carbs = 1, protein = 0\<rparr>\<rparr>,
        \<lparr>name = ''c'', serving_size = 1, servings_available = 10,
          nutrition = \<lparr>fat = 0, carbs = 0, protein = 1\<rparr>\<rparr>]
       \<lparr>fat = 1 / 250, carbs = 0, protein = 3\<rparr> = Inr rep
     \<and> map (\<lambda>r. (Product_col r, Grams r)) (df_filtered rep) = [(''a'', 0), (''c'', 3)]
     \<and> round2 (1 / 250) = 0"
proof -
  let ?solve = "\<lambda>pr::LpProblem. \<lparr>status = LpStatusOptimal,
               varValue = (\<lambda>n. if n = ''Mixture_a'' then Some (1 / 250 :: real)
                                 else if n = ''Mixture_b'' then Some 0 else Some 3)\<rparr>"
  let ?ps = "[\<lparr>name = ''a'', serving_size = 1, servings_available = 10,
          nutrition = \<lparr>fat = 1, carbs = 0, protein = 0\<rparr>\<rparr>,
        \<lparr>name = ''b'', serving_size = 1, servings_available = 10,
          nutrition = \<lparr>fat = 0, carbs = 1, protein = 0\<rparr>\<rparr>,
        \<lparr>name = ''c'', serving_size = 1, servings_available = 10,
          nutrition = \<lparr>fat = 0, carbs = 0, protein = 1\<rparr>\<rparr>]"
  let ?t = "\<lparr>fat = 1 / 250, carbs = 0, protein = 3\<rparr>"
  obtain rep where o: "optimize ?solve ?ps ?t = Inr rep"
    by (simp add: build_eval run_eval)
  from report_rows_filtered_then_rounded [OF o] obtain m where
    b: "build_model ?ps ?t = Inr m"
    and rows: "map (\<lambda>r. (Product_col r, Grams r)) (df_filtered rep)
         = map (\<lambda>p. (name p, round2 (grams_of m (varValue (?solve (prob m))) p)))
             (filter (\<lambda>p. 0 < grams_of m (varValue (?solve (prob m))) p) ?ps)"
    and tiny: "\<forall>g. 0 < g \<and> g < 5 / 1000 \<longrightarrow> round2 g = 0"
    by blast
  have r: "round2 (1 / 250) = 0" using tiny by simp
  have mv: "mixture_vars m = LpVariable_dicts ''Mixture'' (map name ?ps) (Some 0)"
    by (rule build_model_sums(4) [OF b])
  have rws: "map (\<lambda>r. (Product_col r, Grams r)) (df_filtered rep) = [(''a'', 0), (''c'', 3)]"
    unfolding rows
    by (simp add: grams_of_def read_varValue_def mv getitem_mixture_vars Mixture_var_def r)
       (simp add: round2_def rint_def)
  show ?thesis
    by (rule exI [of _ rep]) (intro conjI o rws r)
qed

end
